theory Spec2Isabelle
  imports Main "HOL-Library.Word" "HOL-Library.AList"
begin

section \<open>Time, durations and errors\<close>

text \<open>
  A \<^verbatim>\<open>time.Time\<close> is an integer count of nanoseconds since Go's zero time instant, so
  that the zero value of \<^verbatim>\<open>time.Time\<close> is \<open>0\<close>. A \<^verbatim>\<open>time.Duration\<close> is an int64 count of
  nanoseconds; the places where the source computes with it have the int64 range
  written out.
\<close>

type_synonym time = int
type_synonym Duration = int

definition Second :: Duration where
  "Second = 1000000000"

definition maxDuration :: Duration where
  "maxDuration = 2 ^ 63 - 1"

definition minDuration :: Duration where
  "minDuration = - (2 ^ 63)"

text \<open>Conversion of an unbounded integer to int64 (two's complement wrap-around).\<close>

definition wrap64 :: "int \<Rightarrow> int" where
  "wrap64 x = (x + 2 ^ 63) mod 2 ^ 64 - 2 ^ 63"

text \<open>\<^verbatim>\<open>t.Sub(u)\<close>: the difference, saturated to the range of a Duration.\<close>

definition time_Sub :: "time \<Rightarrow> time \<Rightarrow> Duration" where
  "time_Sub t u =
     (if t - u > maxDuration then maxDuration
      else if t - u < minDuration then minDuration
      else t - u)"

text \<open>\<^verbatim>\<open>time.Since(t)\<close> is \<^verbatim>\<open>time.Now().Sub(t)\<close>; the clock reading is a parameter.\<close>

definition time_Since :: "time \<Rightarrow> time \<Rightarrow> Duration" where
  "time_Since now t = time_Sub now t"

text \<open>\<^verbatim>\<open>t.IsZero()\<close> on a \<^verbatim>\<open>*metav1.Time\<close>: a nil pointer counts as zero.\<close>

definition IsZero :: "time option \<Rightarrow> bool" where
  "IsZero t = (case t of None \<Rightarrow> True | Some x \<Rightarrow> x = 0)"

text \<open>
  A Go \<^verbatim>\<open>error\<close> value: the API status reason that \<^verbatim>\<open>errors.IsNotFound\<close> and
  \<^verbatim>\<open>errors.IsAlreadyExists\<close> inspect, and the message that \<^verbatim>\<open>err.Error()\<close> returns.
  Errors made by \<^verbatim>\<open>fmt.Errorf\<close> carry no API reason.
\<close>

datatype StatusReason =
  ReasonNotFound | ReasonAlreadyExists | ReasonConflict | ReasonTimeout | ReasonNone

datatype error = Err StatusReason string

fun Error :: "error \<Rightarrow> string" where
  "Error (Err r m) = m"

fun IsNotFound :: "error \<Rightarrow> bool" where
  "IsNotFound (Err r m) = (r = ReasonNotFound)"

fun IsAlreadyExists :: "error \<Rightarrow> bool" where
  "IsAlreadyExists (Err r m) = (r = ReasonAlreadyExists)"

text \<open>\<^verbatim>\<open>fmt.Errorf(msg)\<close> with no wrapped error.\<close>

definition Errorf :: "string \<Rightarrow> error" where
  "Errorf m = Err ReasonNone m"

text \<open>\<^verbatim>\<open>fmt.Errorf(prefix + "%w", err)\<close>: the message is prefixed, the cause is kept.\<close>

fun Errorf_w :: "string \<Rightarrow> error \<Rightarrow> error" where
  "Errorf_w p (Err r m) = Err r (p @ m)"

text \<open>\<^verbatim>\<open>ctrl.Result\<close>: only \<^verbatim>\<open>RequeueAfter\<close> is ever set by the two controllers.\<close>

record Result =
  RequeueAfter :: Duration

definition Result_empty :: Result where
  "Result_empty = \<lparr>RequeueAfter = 0\<rparr>"

section \<open>The OpsRequest API type (api/v1/opsrequest\_types.go)\<close>

definition OpsRequestTypeStart :: string where "OpsRequestTypeStart = ''Start''"
definition OpsRequestTypeStop :: string where "OpsRequestTypeStop = ''Stop''"
definition OpsRequestTypeRestart :: string where "OpsRequestTypeRestart = ''Restart''"
definition OpsRequestTypeSwitchover :: string where "OpsRequestTypeSwitchover = ''Switchover''"
definition OpsRequestTypeVerticalScaling :: string where
  "OpsRequestTypeVerticalScaling = ''VerticalScaling''"
definition OpsRequestTypeHorizontalScaling :: string where
  "OpsRequestTypeHorizontalScaling = ''HorizontalScaling''"
definition OpsRequestTypeVolumeExpansion :: string where
  "OpsRequestTypeVolumeExpansion = ''VolumeExpansion''"
definition OpsRequestTypeReconfiguring :: string where
  "OpsRequestTypeReconfiguring = ''Reconfiguring''"
definition OpsRequestTypeUpgrade :: string where "OpsRequestTypeUpgrade = ''Upgrade''"
definition OpsRequestTypeBackup :: string where "OpsRequestTypeBackup = ''Backup''"
definition OpsRequestTypeRestore :: string where "OpsRequestTypeRestore = ''Restore''"
definition OpsRequestTypeExpose :: string where "OpsRequestTypeExpose = ''Expose''"
definition OpsRequestTypeRebuildInstance :: string where
  "OpsRequestTypeRebuildInstance = ''RebuildInstance''"
definition OpsRequestTypeCustom :: string where "OpsRequestTypeCustom = ''Custom''"

definition OpsRequestPhasePending :: string where "OpsRequestPhasePending = ''Pending''"
definition OpsRequestPhaseRunning :: string where "OpsRequestPhaseRunning = ''Running''"
definition OpsRequestPhaseSucceeded :: string where "OpsRequestPhaseSucceeded = ''Succeeded''"
definition OpsRequestPhaseFailed :: string where "OpsRequestPhaseFailed = ''Failed''"

text \<open>
  Payloads. A \<^verbatim>\<open>corev1.ResourceRequirements\<close> is a pair of name/quantity lists; a
  \<^verbatim>\<open>resource.Quantity\<close> is represented by the text its \<^verbatim>\<open>String()\<close> method yields.
\<close>

record ResourceRequirements =
  Requests :: "(string \<times> string) list"
  Limits :: "(string \<times> string) list"

record HorizontalScalingSpec =
  hs_Replicas :: "32 word"

record VerticalScalingSpec =
  vs_Resources :: ResourceRequirements

record VolumeExpansionSpec =
  ve_Size :: string

record ConfigParameter =
  cfg_Name :: string
  cfg_Value :: string

record ReconfiguringSpec =
  rc_Config :: "ConfigParameter list"

record UpgradeSpec =
  up_TargetVersion :: string

record BackupRequestSpec =
  br_BackupName :: string

record RestoreRequestSpec =
  rr_BackupName :: string
  rr_PointInTime :: "time option"

record SwitchoverSpec =
  sw_TargetInstance :: string

record RebuildInstanceSpec =
  rb_InstanceName :: string
  rb_SourceInstance :: string

record CustomOperationSpec =
  cu_Operation :: string
  cu_Parameters :: "(string \<times> string) list"

text \<open>
  A pointer-typed payload field is an \<open>option\<close>: \<open>None\<close> is the nil pointer. The
  fields carry the prefix \<open>spec_\<close> because the handler interface has methods of the
  same names.
\<close>

record OpsRequestSpec =
  spec_ClusterRef :: string
  spec_Type :: string
  spec_HorizontalScaling :: "HorizontalScalingSpec option"
  spec_VerticalScaling :: "VerticalScalingSpec option"
  spec_VolumeExpansion :: "VolumeExpansionSpec option"
  spec_Reconfiguring :: "ReconfiguringSpec option"
  spec_Upgrade :: "UpgradeSpec option"
  spec_Backup :: "BackupRequestSpec option"
  spec_Restore :: "RestoreRequestSpec option"
  spec_Switchover :: "SwitchoverSpec option"
  spec_RebuildInstance :: "RebuildInstanceSpec option"
  spec_Custom :: "CustomOperationSpec option"
  spec_TTLSecondsAfterFinished :: "32 word option"

record ActionLogEntry =
  al_Timestamp :: time
  al_Action :: string
  al_Status :: string
  al_Message :: string

record OpsRequestStatus =
  st_Conditions :: "string list"
  st_Phase :: string
  st_StartTime :: "time option"
  st_CompletionTime :: "time option"
  st_Message :: string
  st_ActionLog :: "ActionLogEntry list"

text \<open>The zero value \<^verbatim>\<open>OpsRequestStatus{}\<close>.\<close>

definition OpsRequestStatus_zero :: OpsRequestStatus where
  "OpsRequestStatus_zero =
     \<lparr>st_Conditions = [], st_Phase = [], st_StartTime = None, st_CompletionTime = None,
      st_Message = [], st_ActionLog = []\<rparr>"

record OpsRequest =
  o_Name :: string
  o_Namespace :: string
  o_Spec :: OpsRequestSpec
  o_Status :: OpsRequestStatus

section \<open>The DatabaseCluster API type (api/v1)\<close>

text \<open>
  Of the specification of a DatabaseCluster the records keep the fields that the
  controllers, the provider's status mapper, its cleanup and its pre-reconcile hook read.
  An int32 or int64 that is only copied is an \<open>int\<close>.
\<close>

record BackupSpec =
  bk_Enabled :: bool

record MonitoringSpec =
  mo_Enabled :: bool

record ProxySpec =
  px_Enabled :: bool
  px_Type :: string
  px_Replicas :: int

record DataSourceSpec =
  ds_BackupSource :: "string option"
  ds_CloneSource :: "string option"

record DatabaseClusterSpec =
  EngineType :: string
  EngineVersion :: string
  ClusterSize :: int
  dcs_Backup :: "BackupSpec option"
  dcs_Monitoring :: "MonitoringSpec option"
  dcs_Proxy :: "ProxySpec option"
  dcs_DataSource :: "DataSourceSpec option"

definition ClusterPhaseInitializing :: string where
  "ClusterPhaseInitializing = ''Initializing''"
definition ClusterPhaseReady :: string where "ClusterPhaseReady = ''Ready''"
definition ClusterPhaseUpdating :: string where "ClusterPhaseUpdating = ''Updating''"
definition ClusterPhaseFailed :: string where "ClusterPhaseFailed = ''Failed''"
definition ClusterPhaseDeleting :: string where "ClusterPhaseDeleting = ''Deleting''"

record DatabaseEndpoints =
  ep_Primary :: string
  ep_Replica :: string
  ep_External :: string

record DatabaseStatus =
  db_Ready :: bool
  db_Instances :: int
  db_ReadyInstances :: int
  db_PrimaryInstance :: string
  db_Roles :: "(string \<times> string) list"
  db_Endpoints :: "DatabaseEndpoints option"

record ProxyStatus =
  ps_Ready :: bool
  ps_Replicas :: int
  ps_ReadyReplicas :: int

record BackupStatus =
  bs_LastBackupTime :: "time option"
  bs_NextBackupTime :: "time option"
  bs_LastBackupName :: string

record MonitoringStatus =
  ms_Enabled :: bool
  ms_Ready :: bool
  ms_Endpoint :: string

record DatabaseClusterStatus =
  cs_Conditions :: "string list"
  cs_Phase :: string
  cs_Database :: "DatabaseStatus option"
  cs_Proxy :: "ProxyStatus option"
  cs_Backup :: "BackupStatus option"
  cs_Monitoring :: "MonitoringStatus option"
  cs_ObservedGeneration :: int
  cs_Message :: string

text \<open>The zero value \<^verbatim>\<open>DatabaseClusterStatus{}\<close>.\<close>

definition DatabaseClusterStatus_zero :: DatabaseClusterStatus where
  "DatabaseClusterStatus_zero =
     \<lparr>cs_Conditions = [], cs_Phase = [], cs_Database = None, cs_Proxy = None,
      cs_Backup = None, cs_Monitoring = None, cs_ObservedGeneration = 0, cs_Message = []\<rparr>"

record DatabaseCluster =
  dc_Name :: string
  dc_Namespace :: string
  dc_Generation :: int
  dc_CreationTimestamp :: time
  dc_DeletionTimestamp :: "time option"
  dc_Finalizers :: "string list"
  dc_Spec :: DatabaseClusterSpec
  dc_Status :: DatabaseClusterStatus

section \<open>The child record: a CloudNativePG Cluster\<close>

text \<open>
  The fields of \<^verbatim>\<open>cnpgv1.Cluster\<close> and \<^verbatim>\<open>cnpgv1.Backup\<close> that the provider reads or
  writes. A Go map that may be nil is an optional association list.
\<close>

record InstanceStatus =
  is_Pod :: string
  is_IsPrimary :: bool

record cnpg_ClusterStatus =
  cst_Phase :: string
  cst_Instances :: int
  cst_ReadyInstances :: int
  cst_CurrentPrimary :: string
  cst_InstancesStatus :: "InstanceStatus list"
  cst_FirstRecoverabilityPoint :: string
  cst_Conditions :: "string list"

record BootstrapRecovery =
  rec_Backup :: "string option"
  rec_RecoveryTarget :: "string option"

record BootstrapConfiguration =
  bc_InitDB :: "(string \<times> string) option"
  bc_Recovery :: "BootstrapRecovery option"
  bc_PgBaseBackup :: "string option"

record cnpg_ClusterSpec =
  csp_Instances :: int
  csp_ImageName :: string
  csp_StorageSize :: string
  csp_Resources :: "ResourceRequirements option"
  csp_Parameters :: "(string \<times> string) list option"
  csp_Bootstrap :: "BootstrapConfiguration option"

record cnpg_Cluster =
  c_Name :: string
  c_Namespace :: string
  c_Annotations :: "(string \<times> string) list option"
  c_Spec :: cnpg_ClusterSpec
  c_Status :: cnpg_ClusterStatus

record cnpg_Backup =
  b_Name :: string
  b_Namespace :: string
  b_Cluster :: string

text \<open>
  The provider's handle on the child system's API. The outcome of every call is given by
  the environment. A reconciliation pass makes at most one read of the child record from
  each of the places below, so indexing the read by its place lets the environment answer
  each read of a pass differently. The clock is read as one instant per pass.
\<close>

datatype call_site = InOperation | InGetStatus | InStatus | InCleanup | InPreReconcileHook

record cnpg_client =
  client_Get :: "call_site \<Rightarrow> string \<Rightarrow> string \<Rightarrow> error + cnpg_Cluster"
  client_Update :: "cnpg_Cluster \<Rightarrow> error option"
  client_Create :: "cnpg_Backup \<Rightarrow> error option"
  client_Delete :: "cnpg_Cluster \<Rightarrow> error option"
  time_Now :: time
  Format_RFC3339 :: "time \<Rightarrow> string"

text \<open>The calls a provider makes on the child system, in the order made.\<close>

datatype child_call =
    ChildGet string string
  | ChildUpdate cnpg_Cluster
  | ChildCreateBackup cnpg_Backup
  | ChildDelete cnpg_Cluster

section \<open>The delegate contract (pkg/provider/interfaces)\<close>

text \<open>
  Every method of \<^verbatim>\<open>OperationsHandler\<close> returns the calls it made on the child system
  (of some type \<open>'e\<close>) and its error result (\<open>None\<close> is nil).
\<close>

record 'e OperationsHandler =
  Start :: "DatabaseCluster \<Rightarrow> OpsRequest \<Rightarrow> 'e list \<times> error option"
  Stop :: "DatabaseCluster \<Rightarrow> OpsRequest \<Rightarrow> 'e list \<times> error option"
  Restart :: "DatabaseCluster \<Rightarrow> OpsRequest \<Rightarrow> 'e list \<times> error option"
  Switchover :: "DatabaseCluster \<Rightarrow> OpsRequest \<Rightarrow> 'e list \<times> error option"
  HorizontalScaling :: "DatabaseCluster \<Rightarrow> OpsRequest \<Rightarrow> 'e list \<times> error option"
  VerticalScaling :: "DatabaseCluster \<Rightarrow> OpsRequest \<Rightarrow> 'e list \<times> error option"
  VolumeExpansion :: "DatabaseCluster \<Rightarrow> OpsRequest \<Rightarrow> 'e list \<times> error option"
  Reconfigure :: "DatabaseCluster \<Rightarrow> OpsRequest \<Rightarrow> 'e list \<times> error option"
  Upgrade :: "DatabaseCluster \<Rightarrow> OpsRequest \<Rightarrow> 'e list \<times> error option"
  Backup :: "DatabaseCluster \<Rightarrow> OpsRequest \<Rightarrow> 'e list \<times> error option"
  Restore :: "DatabaseCluster \<Rightarrow> OpsRequest \<Rightarrow> 'e list \<times> error option"
  Expose :: "DatabaseCluster \<Rightarrow> OpsRequest \<Rightarrow> 'e list \<times> error option"
  RebuildInstance :: "DatabaseCluster \<Rightarrow> OpsRequest \<Rightarrow> 'e list \<times> error option"
  Custom :: "DatabaseCluster \<Rightarrow> OpsRequest \<Rightarrow> 'e list \<times> error option"
  GetStatus :: "DatabaseCluster \<Rightarrow> OpsRequest \<Rightarrow> 'e list \<times> (error + OpsRequestStatus)"

section \<open>The reference delegate's operations (pkg/provider/cnpg/operations.go)\<close>

text \<open>
  Each method first reads the child record named like the parent, changes the copy it
  read, and writes it back; a failed read is returned as it is. The Go map that is nil is
  replaced by an empty one before it is written to.
\<close>

definition make_if_nil :: "(string \<times> string) list option \<Rightarrow> (string \<times> string) list" where
  "make_if_nil m = (case m of None \<Rightarrow> [] | Some kvs \<Rightarrow> kvs)"

definition CNPG_Start ::
  "cnpg_client \<Rightarrow> DatabaseCluster \<Rightarrow> OpsRequest \<Rightarrow> child_call list \<times> error option" where
  "CNPG_Start h cluster ops =
     (case client_Get h InOperation (dc_Name cluster) (dc_Namespace cluster) of
        Inl err \<Rightarrow> ([ChildGet (dc_Name cluster) (dc_Namespace cluster)], Some err)
      | Inr cnpgCluster \<Rightarrow>
          let updated =
                (case c_Annotations cnpgCluster of
                   None \<Rightarrow> cnpgCluster
                 | Some kvs \<Rightarrow>
                     cnpgCluster\<lparr>c_Annotations := Some (AList.delete ''cnpg.io/hibernation'' kvs)\<rparr>)
          in ([ChildGet (dc_Name cluster) (dc_Namespace cluster), ChildUpdate updated],
              client_Update h updated))"

definition CNPG_Stop ::
  "cnpg_client \<Rightarrow> DatabaseCluster \<Rightarrow> OpsRequest \<Rightarrow> child_call list \<times> error option" where
  "CNPG_Stop h cluster ops =
     (case client_Get h InOperation (dc_Name cluster) (dc_Namespace cluster) of
        Inl err \<Rightarrow> ([ChildGet (dc_Name cluster) (dc_Namespace cluster)], Some err)
      | Inr cnpgCluster \<Rightarrow>
          let updated =
                cnpgCluster\<lparr>c_Annotations :=
                  Some (AList.update ''cnpg.io/hibernation'' ''on''
                          (make_if_nil (c_Annotations cnpgCluster)))\<rparr>
          in ([ChildGet (dc_Name cluster) (dc_Namespace cluster), ChildUpdate updated],
              client_Update h updated))"

definition CNPG_Restart ::
  "cnpg_client \<Rightarrow> DatabaseCluster \<Rightarrow> OpsRequest \<Rightarrow> child_call list \<times> error option" where
  "CNPG_Restart h cluster ops =
     (case client_Get h InOperation (dc_Name cluster) (dc_Namespace cluster) of
        Inl err \<Rightarrow> ([ChildGet (dc_Name cluster) (dc_Namespace cluster)], Some err)
      | Inr cnpgCluster \<Rightarrow>
          let updated =
                cnpgCluster\<lparr>c_Annotations :=
                  Some (AList.update ''cnpg.io/restartedAt'' (Format_RFC3339 h (time_Now h))
                          (make_if_nil (c_Annotations cnpgCluster)))\<rparr>
          in ([ChildGet (dc_Name cluster) (dc_Namespace cluster), ChildUpdate updated],
              client_Update h updated))"

definition CNPG_Switchover ::
  "cnpg_client \<Rightarrow> DatabaseCluster \<Rightarrow> OpsRequest \<Rightarrow> child_call list \<times> error option" where
  "CNPG_Switchover h cluster ops =
     (case spec_Switchover (o_Spec ops) of
        None \<Rightarrow> ([], Some (Errorf ''switchover spec is required''))
      | Some payload \<Rightarrow>
          (case client_Get h InOperation (dc_Name cluster) (dc_Namespace cluster) of
             Inl err \<Rightarrow> ([ChildGet (dc_Name cluster) (dc_Namespace cluster)], Some err)
           | Inr cnpgCluster \<Rightarrow>
               let forced =
                     AList.update ''cnpg.io/forceSwitchover'' (Format_RFC3339 h (time_Now h))
                       (make_if_nil (c_Annotations cnpgCluster));
                   targeted =
                     (if sw_TargetInstance payload \<noteq> []
                      then AList.update ''cnpg.io/switchoverTarget'' (sw_TargetInstance payload)
                             forced
                      else forced);
                   updated = cnpgCluster\<lparr>c_Annotations := Some targeted\<rparr>
               in ([ChildGet (dc_Name cluster) (dc_Namespace cluster), ChildUpdate updated],
                   client_Update h updated)))"

definition CNPG_HorizontalScaling ::
  "cnpg_client \<Rightarrow> DatabaseCluster \<Rightarrow> OpsRequest \<Rightarrow> child_call list \<times> error option" where
  "CNPG_HorizontalScaling h cluster ops =
     (case spec_HorizontalScaling (o_Spec ops) of
        None \<Rightarrow> ([], Some (Errorf ''horizontalScaling spec is required''))
      | Some payload \<Rightarrow>
          (case client_Get h InOperation (dc_Name cluster) (dc_Namespace cluster) of
             Inl err \<Rightarrow> ([ChildGet (dc_Name cluster) (dc_Namespace cluster)], Some err)
           | Inr cnpgCluster \<Rightarrow>
               let updated =
                     cnpgCluster\<lparr>c_Spec :=
                       (c_Spec cnpgCluster)\<lparr>csp_Instances := sint (hs_Replicas payload)\<rparr>\<rparr>
               in ([ChildGet (dc_Name cluster) (dc_Namespace cluster), ChildUpdate updated],
                   client_Update h updated)))"

definition CNPG_VerticalScaling ::
  "cnpg_client \<Rightarrow> DatabaseCluster \<Rightarrow> OpsRequest \<Rightarrow> child_call list \<times> error option" where
  "CNPG_VerticalScaling h cluster ops =
     (case spec_VerticalScaling (o_Spec ops) of
        None \<Rightarrow> ([], Some (Errorf ''verticalScaling spec is required''))
      | Some payload \<Rightarrow>
          (case client_Get h InOperation (dc_Name cluster) (dc_Namespace cluster) of
             Inl err \<Rightarrow> ([ChildGet (dc_Name cluster) (dc_Namespace cluster)], Some err)
           | Inr cnpgCluster \<Rightarrow>
               let updated =
                     cnpgCluster\<lparr>c_Spec :=
                       (c_Spec cnpgCluster)\<lparr>csp_Resources := Some (vs_Resources payload)\<rparr>\<rparr>
               in ([ChildGet (dc_Name cluster) (dc_Namespace cluster), ChildUpdate updated],
                   client_Update h updated)))"

definition CNPG_VolumeExpansion ::
  "cnpg_client \<Rightarrow> DatabaseCluster \<Rightarrow> OpsRequest \<Rightarrow> child_call list \<times> error option" where
  "CNPG_VolumeExpansion h cluster ops =
     (case spec_VolumeExpansion (o_Spec ops) of
        None \<Rightarrow> ([], Some (Errorf ''volumeExpansion spec is required''))
      | Some payload \<Rightarrow>
          (case client_Get h InOperation (dc_Name cluster) (dc_Namespace cluster) of
             Inl err \<Rightarrow> ([ChildGet (dc_Name cluster) (dc_Namespace cluster)], Some err)
           | Inr cnpgCluster \<Rightarrow>
               let updated =
                     cnpgCluster\<lparr>c_Spec :=
                       (c_Spec cnpgCluster)\<lparr>csp_StorageSize := ve_Size payload\<rparr>\<rparr>
               in ([ChildGet (dc_Name cluster) (dc_Namespace cluster), ChildUpdate updated],
                   client_Update h updated)))"

definition CNPG_Reconfigure ::
  "cnpg_client \<Rightarrow> DatabaseCluster \<Rightarrow> OpsRequest \<Rightarrow> child_call list \<times> error option" where
  "CNPG_Reconfigure h cluster ops =
     (case spec_Reconfiguring (o_Spec ops) of
        None \<Rightarrow> ([], Some (Errorf ''reconfiguring spec is required''))
      | Some payload \<Rightarrow>
          (case client_Get h InOperation (dc_Name cluster) (dc_Namespace cluster) of
             Inl err \<Rightarrow> ([ChildGet (dc_Name cluster) (dc_Namespace cluster)], Some err)
           | Inr cnpgCluster \<Rightarrow>
               let parameters =
                     foldl (\<lambda>m cfg. AList.update (cfg_Name cfg) (cfg_Value cfg) m)
                       (make_if_nil (csp_Parameters (c_Spec cnpgCluster))) (rc_Config payload);
                   updated =
                     cnpgCluster\<lparr>c_Spec :=
                       (c_Spec cnpgCluster)\<lparr>csp_Parameters := Some parameters\<rparr>\<rparr>
               in ([ChildGet (dc_Name cluster) (dc_Namespace cluster), ChildUpdate updated],
                   client_Update h updated)))"

definition CNPG_Upgrade ::
  "cnpg_client \<Rightarrow> DatabaseCluster \<Rightarrow> OpsRequest \<Rightarrow> child_call list \<times> error option" where
  "CNPG_Upgrade h cluster ops =
     (case spec_Upgrade (o_Spec ops) of
        None \<Rightarrow> ([], Some (Errorf ''upgrade spec is required''))
      | Some payload \<Rightarrow>
          (case client_Get h InOperation (dc_Name cluster) (dc_Namespace cluster) of
             Inl err \<Rightarrow> ([ChildGet (dc_Name cluster) (dc_Namespace cluster)], Some err)
           | Inr cnpgCluster \<Rightarrow>
               let updated =
                     cnpgCluster\<lparr>c_Spec :=
                       (c_Spec cnpgCluster)\<lparr>csp_ImageName :=
                         ''ghcr.io/cloudnative-pg/postgresql:'' @ up_TargetVersion payload\<rparr>\<rparr>
               in ([ChildGet (dc_Name cluster) (dc_Namespace cluster), ChildUpdate updated],
                   client_Update h updated)))"

text \<open>Backup creates a separate Backup object; its payload is optional.\<close>

definition CNPG_Backup ::
  "cnpg_client \<Rightarrow> DatabaseCluster \<Rightarrow> OpsRequest \<Rightarrow> child_call list \<times> error option" where
  "CNPG_Backup h cluster ops =
     (let backupName =
            (case spec_Backup (o_Spec ops) of
               None \<Rightarrow> o_Name ops
             | Some payload \<Rightarrow>
                 if br_BackupName payload \<noteq> [] then br_BackupName payload else o_Name ops);
          backup =
            \<lparr>b_Name = backupName, b_Namespace = dc_Namespace cluster, b_Cluster = dc_Name cluster\<rparr>
      in ([ChildCreateBackup backup], client_Create h backup))"

definition CNPG_Restore ::
  "cnpg_client \<Rightarrow> DatabaseCluster \<Rightarrow> OpsRequest \<Rightarrow> child_call list \<times> error option" where
  "CNPG_Restore h cluster ops =
     (case spec_Restore (o_Spec ops) of
        None \<Rightarrow> ([], Some (Errorf ''restore spec is required''))
      | Some payload \<Rightarrow>
          (case client_Get h InOperation (dc_Name cluster) (dc_Namespace cluster) of
             Inl err \<Rightarrow> ([ChildGet (dc_Name cluster) (dc_Namespace cluster)], Some err)
           | Inr cnpgCluster \<Rightarrow>
               let recovery =
                     \<lparr>rec_Backup = Some (rr_BackupName payload),
                      rec_RecoveryTarget =
                        (case rr_PointInTime payload of
                           None \<Rightarrow> None
                         | Some t \<Rightarrow> Some (Format_RFC3339 h t))\<rparr>;
                   bootstrap =
                     \<lparr>bc_InitDB = None, bc_Recovery = Some recovery, bc_PgBaseBackup = None\<rparr>;
                   updated =
                     cnpgCluster\<lparr>c_Spec :=
                       (c_Spec cnpgCluster)\<lparr>csp_Bootstrap := Some bootstrap\<rparr>\<rparr>
               in ([ChildGet (dc_Name cluster) (dc_Namespace cluster), ChildUpdate updated],
                   client_Update h updated)))"

text \<open>Expose does nothing and reports success.\<close>

definition CNPG_Expose ::
  "cnpg_client \<Rightarrow> DatabaseCluster \<Rightarrow> OpsRequest \<Rightarrow> child_call list \<times> error option" where
  "CNPG_Expose h cluster ops = ([], None)"

definition CNPG_RebuildInstance ::
  "cnpg_client \<Rightarrow> DatabaseCluster \<Rightarrow> OpsRequest \<Rightarrow> child_call list \<times> error option" where
  "CNPG_RebuildInstance h cluster ops =
     (case spec_RebuildInstance (o_Spec ops) of
        None \<Rightarrow> ([], Some (Errorf ''rebuildInstance spec is required''))
      | Some payload \<Rightarrow>
          (case client_Get h InOperation (dc_Name cluster) (dc_Namespace cluster) of
             Inl err \<Rightarrow> ([ChildGet (dc_Name cluster) (dc_Namespace cluster)], Some err)
           | Inr cnpgCluster \<Rightarrow>
               let updated =
                     cnpgCluster\<lparr>c_Annotations :=
                       Some (AList.update ''cnpg.io/rebuildInstance'' (rb_InstanceName payload)
                               (make_if_nil (c_Annotations cnpgCluster)))\<rparr>
               in ([ChildGet (dc_Name cluster) (dc_Namespace cluster), ChildUpdate updated],
                   client_Update h updated)))"

definition CNPG_Custom ::
  "cnpg_client \<Rightarrow> DatabaseCluster \<Rightarrow> OpsRequest \<Rightarrow> child_call list \<times> error option" where
  "CNPG_Custom h cluster ops =
     (case spec_Custom (o_Spec ops) of
        None \<Rightarrow> ([], Some (Errorf ''custom spec is required''))
      | Some payload \<Rightarrow>
          ([], Some (Errorf (''custom operation '' @ cu_Operation payload @ '' not implemented''))))"

text \<open>
  GetStatus starts from phase Running. A failed read of the child record is not returned
  as an error: it is reported as phase Failed, with the error text as message.
\<close>

definition CNPG_GetStatus ::
  "cnpg_client \<Rightarrow> DatabaseCluster \<Rightarrow> OpsRequest
     \<Rightarrow> child_call list \<times> (error + OpsRequestStatus)" where
  "CNPG_GetStatus h cluster ops =
     (let status = OpsRequestStatus_zero\<lparr>st_Phase := OpsRequestPhaseRunning\<rparr> in
      case client_Get h InGetStatus (dc_Name cluster) (dc_Namespace cluster) of
        Inl err \<Rightarrow>
          ([ChildGet (dc_Name cluster) (dc_Namespace cluster)],
           Inr (status\<lparr>st_Phase := OpsRequestPhaseFailed, st_Message := Error err\<rparr>))
      | Inr cnpgCluster \<Rightarrow>
          let checked =
                (if cst_Phase (c_Status cnpgCluster) = ''Cluster in healthy state''
                 then status\<lparr>st_Phase := OpsRequestPhaseSucceeded,
                             st_CompletionTime := Some (time_Now h)\<rparr>
                 else status);
              logged =
                checked\<lparr>st_ActionLog :=
                  [\<lparr>al_Timestamp = time_Now h,
                    al_Action = spec_Type (o_Spec ops),
                    al_Status = st_Phase checked,
                    al_Message = cst_Phase (c_Status cnpgCluster)\<rparr>]\<rparr>
          in ([ChildGet (dc_Name cluster) (dc_Namespace cluster)], Inr logged))"

text \<open>\<^verbatim>\<open>NewOperationsHandler\<close>: the handler closes over the client.\<close>

definition NewOperationsHandler :: "cnpg_client \<Rightarrow> child_call OperationsHandler" where
  "NewOperationsHandler c =
     \<lparr>Start = CNPG_Start c, Stop = CNPG_Stop c, Restart = CNPG_Restart c,
      Switchover = CNPG_Switchover c, HorizontalScaling = CNPG_HorizontalScaling c,
      VerticalScaling = CNPG_VerticalScaling c, VolumeExpansion = CNPG_VolumeExpansion c,
      Reconfigure = CNPG_Reconfigure c, Upgrade = CNPG_Upgrade c, Backup = CNPG_Backup c,
      Restore = CNPG_Restore c, Expose = CNPG_Expose c,
      RebuildInstance = CNPG_RebuildInstance c, Custom = CNPG_Custom c,
      GetStatus = CNPG_GetStatus c\<rparr>"

section \<open>The Operation Controller (controllers/opsrequest\_controller.go)\<close>

text \<open>
  What a pass does to the outside world is recorded as a list of events, in order: the
  writes of the OpsRequest, the delegate methods the controller invokes, and the calls
  those methods make on the child system.
\<close>

datatype op_method =
    MStart | MStop | MRestart | MSwitchover | MHorizontalScaling | MVerticalScaling
  | MVolumeExpansion | MReconfigure | MUpgrade | MBackup | MRestore | MExpose
  | MRebuildInstance | MCustom

datatype 'e ops_event =
    OpsStatusUpdate OpsRequest
  | OpsDelete OpsRequest
  | Invoke op_method
  | InvokeGetStatus
  | OpsChildCall 'e

text \<open>
  The reconciler's environment: the outcome of each call on the record store, the
  provider factory followed by \<^verbatim>\<open>prov.Operations()\<close> (which cannot fail), and the clock.
\<close>

record 'e ops_env =
  r_Get :: "error + OpsRequest"
  r_Get_cluster :: "string \<Rightarrow> string \<Rightarrow> error + DatabaseCluster"
  r_GetProvider :: "string \<Rightarrow> error + 'e OperationsHandler"
  r_Status_Update :: "OpsRequest \<Rightarrow> error option"
  r_Delete :: "OpsRequest \<Rightarrow> error option"
  r_Now :: time

text \<open>The controller calls one method of the handler; the call itself is an event.\<close>

definition invoke ::
  "op_method \<Rightarrow> 'e list \<times> error option \<Rightarrow> 'e ops_event list \<times> error option" where
  "invoke m res = (Invoke m # map OpsChildCall (fst res), snd res)"

definition executeOperation ::
  "'e OperationsHandler \<Rightarrow> DatabaseCluster \<Rightarrow> OpsRequest
     \<Rightarrow> 'e ops_event list \<times> error option" where
  "executeOperation opsHandler cluster ops =
     (let t = spec_Type (o_Spec ops) in
      if t = OpsRequestTypeStart then invoke MStart (Start opsHandler cluster ops)
      else if t = OpsRequestTypeStop then invoke MStop (Stop opsHandler cluster ops)
      else if t = OpsRequestTypeRestart then invoke MRestart (Restart opsHandler cluster ops)
      else if t = OpsRequestTypeSwitchover
        then invoke MSwitchover (Switchover opsHandler cluster ops)
      else if t = OpsRequestTypeHorizontalScaling
        then invoke MHorizontalScaling (HorizontalScaling opsHandler cluster ops)
      else if t = OpsRequestTypeVerticalScaling
        then invoke MVerticalScaling (VerticalScaling opsHandler cluster ops)
      else if t = OpsRequestTypeVolumeExpansion
        then invoke MVolumeExpansion (VolumeExpansion opsHandler cluster ops)
      else if t = OpsRequestTypeReconfiguring
        then invoke MReconfigure (Reconfigure opsHandler cluster ops)
      else if t = OpsRequestTypeUpgrade then invoke MUpgrade (Upgrade opsHandler cluster ops)
      else if t = OpsRequestTypeBackup then invoke MBackup (Backup opsHandler cluster ops)
      else if t = OpsRequestTypeRestore then invoke MRestore (Restore opsHandler cluster ops)
      else if t = OpsRequestTypeExpose then invoke MExpose (Expose opsHandler cluster ops)
      else if t = OpsRequestTypeRebuildInstance
        then invoke MRebuildInstance (RebuildInstance opsHandler cluster ops)
      else if t = OpsRequestTypeCustom then invoke MCustom (Custom opsHandler cluster ops)
      else ([], Some (Errorf (''unsupported operation type: '' @ t))))"

definition updateStatusFailed ::
  "'e ops_env \<Rightarrow> OpsRequest \<Rightarrow> string \<Rightarrow> 'e ops_event list \<times> Result \<times> error option" where
  "updateStatusFailed r ops message =
     (let failed =
            ops\<lparr>o_Status :=
              (o_Status ops)\<lparr>st_Phase := OpsRequestPhaseFailed,
                              st_Message := message,
                              st_CompletionTime := Some (r_Now r)\<rparr>\<rparr>
      in ([OpsStatusUpdate failed], Result_empty, r_Status_Update r failed))"

text \<open>The TTL in nanoseconds: an int32 converted to int64 and multiplied in int64.\<close>

definition ttl_Duration :: "32 word \<Rightarrow> Duration" where
  "ttl_Duration d = wrap64 (sint d * Second)"

text \<open>The part of \<^verbatim>\<open>Reconcile\<close> after the handler has been obtained.\<close>

definition executeAndPoll ::
  "'e ops_env \<Rightarrow> 'e OperationsHandler \<Rightarrow> DatabaseCluster \<Rightarrow> OpsRequest
     \<Rightarrow> 'e ops_event list \<times> Result \<times> error option" where
  "executeAndPoll r opsHandler cluster ops =
     (case executeOperation opsHandler cluster ops of
        (evs, Some err) \<Rightarrow>
          (case updateStatusFailed r ops (Error err) of
             (evs', res) \<Rightarrow> (evs @ evs', res))
      | (evs, None) \<Rightarrow>
          (case GetStatus opsHandler cluster ops of
             (calls, Inl err) \<Rightarrow>
               (evs @ InvokeGetStatus # map OpsChildCall calls,
                \<lparr>RequeueAfter = 5 * Second\<rparr>, None)
           | (calls, Inr status) \<Rightarrow>
               let polled = ops\<lparr>o_Status := status\<rparr>;
                   trace = evs @ InvokeGetStatus # map OpsChildCall calls
                             @ [OpsStatusUpdate polled]
               in (case r_Status_Update r polled of
                     Some err \<Rightarrow> (trace, Result_empty, Some err)
                   | None \<Rightarrow>
                       if st_Phase status = OpsRequestPhaseRunning
                       then (trace, \<lparr>RequeueAfter = 5 * Second\<rparr>, None)
                       else (trace, Result_empty, None))))"

definition OpsRequestReconciler_Reconcile ::
  "'e ops_env \<Rightarrow> 'e ops_event list \<times> Result \<times> error option" where
  "OpsRequestReconciler_Reconcile r =
     (case r_Get r of
        Inl err \<Rightarrow>
          if IsNotFound err then ([], Result_empty, None) else ([], Result_empty, Some err)
      | Inr ops \<Rightarrow>
          if st_Phase (o_Status ops) = OpsRequestPhaseSucceeded
             \<or> st_Phase (o_Status ops) = OpsRequestPhaseFailed
          then
            (case (spec_TTLSecondsAfterFinished (o_Spec ops), st_CompletionTime (o_Status ops)) of
               (Some d, Some completed) \<Rightarrow>
                 if time_Since (r_Now r) completed > ttl_Duration d
                 then ([OpsDelete ops], Result_empty, r_Delete r ops)
                 else ([], Result_empty, None)
             | _ \<Rightarrow> ([], Result_empty, None))
          else
            (case r_Get_cluster r (spec_ClusterRef (o_Spec ops)) (o_Namespace ops) of
               Inl err \<Rightarrow>
                 updateStatusFailed r ops (''target cluster not found: '' @ Error err)
             | Inr cluster \<Rightarrow>
                 (case r_GetProvider r (EngineType (dc_Spec cluster)) of
                    Inl err \<Rightarrow>
                      updateStatusFailed r ops (''unable to get provider: '' @ Error err)
                  | Inr opsHandler \<Rightarrow>
                      if st_Phase (o_Status ops) = []
                         \<or> st_Phase (o_Status ops) = OpsRequestPhasePending
                      then
                        (let running =
                               ops\<lparr>o_Status :=
                                 (o_Status ops)\<lparr>st_Phase := OpsRequestPhaseRunning,
                                                 st_StartTime := Some (r_Now r)\<rparr>\<rparr>
                         in case r_Status_Update r running of
                              Some err \<Rightarrow> ([OpsStatusUpdate running], Result_empty, Some err)
                            | None \<Rightarrow>
                                (case executeAndPoll r opsHandler cluster running of
                                   (evs, res) \<Rightarrow> (OpsStatusUpdate running # evs, res)))
                      else executeAndPoll r opsHandler cluster ops)))"

section \<open>The reference delegate's provider (pkg/provider/cnpg/provider.go)\<close>

definition mapCNPGPhaseToDBaaSPhase :: "string \<Rightarrow> string" where
  "mapCNPGPhaseToDBaaSPhase cnpgPhase =
     (if cnpgPhase = ''Cluster in healthy state'' then ClusterPhaseReady
      else if cnpgPhase = ''Creating primary instance'' then ClusterPhaseInitializing
      else if cnpgPhase = ''Upgrading cluster'' then ClusterPhaseUpdating
      else ClusterPhaseInitializing)"

text \<open>The loop over the instances of the child record that fills the role map.\<close>

definition instance_roles :: "InstanceStatus list \<Rightarrow> (string \<times> string) list" where
  "instance_roles instances =
     foldl (\<lambda>roles instance.
              if is_IsPrimary instance then AList.update (is_Pod instance) ''primary'' roles
              else AList.update (is_Pod instance) ''replica'' roles)
       [] instances"

text \<open>
  \<^verbatim>\<open>Status\<close> fills a fresh status record block by block; each block of the source is one
  function here, in the order of the source.
\<close>

definition map_phase :: "cnpg_ClusterStatus \<Rightarrow> DatabaseClusterStatus \<Rightarrow> DatabaseClusterStatus" where
  "map_phase child status =
     (if cst_Phase child = [] then status\<lparr>cs_Phase := ClusterPhaseInitializing\<rparr>
      else status\<lparr>cs_Phase := mapCNPGPhaseToDBaaSPhase (cst_Phase child)\<rparr>)"

definition map_database ::
  "DatabaseCluster \<Rightarrow> cnpg_ClusterStatus \<Rightarrow> DatabaseClusterStatus \<Rightarrow> DatabaseClusterStatus" where
  "map_database cluster child status =
     status\<lparr>cs_Database := Some
       \<lparr>db_Ready = (cst_Phase child = ''Cluster in healthy state''),
        db_Instances = cst_Instances child,
        db_ReadyInstances = cst_ReadyInstances child,
        db_PrimaryInstance = cst_CurrentPrimary child,
        db_Roles = instance_roles (cst_InstancesStatus child),
        db_Endpoints = Some
          \<lparr>ep_Primary =
             dc_Name cluster @ ''-rw.'' @ dc_Namespace cluster @ ''.svc.cluster.local'',
           ep_Replica =
             dc_Name cluster @ ''-ro.'' @ dc_Namespace cluster @ ''.svc.cluster.local'',
           ep_External = []\<rparr>\<rparr>\<rparr>"

definition map_backup ::
  "DatabaseCluster \<Rightarrow> cnpg_ClusterStatus \<Rightarrow> DatabaseClusterStatus \<Rightarrow> DatabaseClusterStatus" where
  "map_backup cluster child status =
     (case dcs_Backup (dc_Spec cluster) of
        None \<Rightarrow> status
      | Some backup \<Rightarrow>
          if bk_Enabled backup
          then status\<lparr>cs_Backup := Some
                 \<lparr>bs_LastBackupTime =
                    (if cst_FirstRecoverabilityPoint child \<noteq> []
                     then Some (dc_CreationTimestamp cluster) else None),
                  bs_NextBackupTime = None,
                  bs_LastBackupName = []\<rparr>\<rparr>
          else status)"

definition map_monitoring :: "DatabaseCluster \<Rightarrow> DatabaseClusterStatus \<Rightarrow> DatabaseClusterStatus" where
  "map_monitoring cluster status =
     (case dcs_Monitoring (dc_Spec cluster) of
        None \<Rightarrow> status
      | Some monitoring \<Rightarrow>
          if mo_Enabled monitoring
          then status\<lparr>cs_Monitoring := Some
                 \<lparr>ms_Enabled = True, ms_Ready = True, ms_Endpoint = []\<rparr>\<rparr>
          else status)"

definition map_proxy :: "DatabaseCluster \<Rightarrow> DatabaseClusterStatus \<Rightarrow> DatabaseClusterStatus" where
  "map_proxy cluster status =
     (case dcs_Proxy (dc_Spec cluster) of
        None \<Rightarrow> status
      | Some proxy \<Rightarrow>
          if px_Enabled proxy
          then status\<lparr>cs_Proxy := Some
                 \<lparr>ps_Ready = True, ps_Replicas = px_Replicas proxy,
                  ps_ReadyReplicas = px_Replicas proxy\<rparr>\<rparr>
          else status)"

definition set_message :: "cnpg_ClusterStatus \<Rightarrow> DatabaseClusterStatus \<Rightarrow> DatabaseClusterStatus" where
  "set_message child status =
     (case cst_Conditions child of
        [] \<Rightarrow> status
      | message # _ \<Rightarrow> status\<lparr>cs_Message := message\<rparr>)"

definition CNPGProvider_Status ::
  "cnpg_client \<Rightarrow> DatabaseCluster \<Rightarrow> child_call list \<times> (error + DatabaseClusterStatus)" where
  "CNPGProvider_Status p cluster =
     (case client_Get p InStatus (dc_Name cluster) (dc_Namespace cluster) of
        Inl err \<Rightarrow> ([ChildGet (dc_Name cluster) (dc_Namespace cluster)], Inl err)
      | Inr cnpgCluster \<Rightarrow>
          let child = c_Status cnpgCluster;
              status = DatabaseClusterStatus_zero\<lparr>cs_ObservedGeneration := dc_Generation cluster\<rparr>
          in ([ChildGet (dc_Name cluster) (dc_Namespace cluster)],
              Inr (set_message child
                    (map_proxy cluster
                      (map_monitoring cluster
                        (map_backup cluster child
                          (map_database cluster child
                            (map_phase child status))))))))"

text \<open>\<^verbatim>\<open>client.IgnoreNotFound\<close>.\<close>

definition IgnoreNotFound :: "error \<Rightarrow> error option" where
  "IgnoreNotFound err = (if IsNotFound err then None else Some err)"

definition CNPGProvider_Cleanup ::
  "cnpg_client \<Rightarrow> DatabaseCluster \<Rightarrow> child_call list \<times> error option" where
  "CNPGProvider_Cleanup p cluster =
     (case client_Get p InCleanup (dc_Name cluster) (dc_Namespace cluster) of
        Inl err \<Rightarrow> ([ChildGet (dc_Name cluster) (dc_Namespace cluster)], IgnoreNotFound err)
      | Inr cnpgCluster \<Rightarrow>
          ([ChildGet (dc_Name cluster) (dc_Namespace cluster), ChildDelete cnpgCluster],
           client_Delete p cnpgCluster))"

definition CNPGProvider_PreReconcileHook ::
  "cnpg_client \<Rightarrow> DatabaseCluster \<Rightarrow> child_call list \<times> (error + int)" where
  "CNPGProvider_PreReconcileHook p cluster =
     (case dcs_DataSource (dc_Spec cluster) of
        None \<Rightarrow> ([], Inr 0)
      | Some dataSource \<Rightarrow>
          (case ds_BackupSource dataSource of
             None \<Rightarrow> ([], Inr 0)
           | Some backupSource \<Rightarrow>
               (case client_Get p InPreReconcileHook (dc_Name cluster) (dc_Namespace cluster) of
                  Inl err \<Rightarrow> ([ChildGet (dc_Name cluster) (dc_Namespace cluster)], Inl err)
                | Inr cnpgCluster \<Rightarrow>
                    if cst_Phase (c_Status cnpgCluster) \<noteq> ''Cluster in healthy state''
                    then ([ChildGet (dc_Name cluster) (dc_Namespace cluster)], Inr 5)
                    else ([ChildGet (dc_Name cluster) (dc_Namespace cluster)], Inr 0))))"

section \<open>The Cluster Controller (controllers/databasecluster\_controller.go)\<close>

text \<open>
  The \<^verbatim>\<open>Applier\<close> interface: eight steps that change the child record being built, which
  the applier holds, and \<^verbatim>\<open>GetResult\<close>, which hands it out. A step is a function on the
  record being built that may fail. The fields carry the prefix \<open>a_\<close>.
\<close>

record 'b Applier =
  a_building :: 'b
  a_Metadata :: "'b \<Rightarrow> error + 'b"
  a_Engine :: "'b \<Rightarrow> error + 'b"
  a_Proxy :: "'b \<Rightarrow> error + 'b"
  a_Monitoring :: "'b \<Rightarrow> error + 'b"
  a_PodSchedulingPolicy :: "'b \<Rightarrow> error + 'b"
  a_Backup :: "'b \<Rightarrow> error + 'b"
  a_DataSource :: "'b \<Rightarrow> error + 'b"
  a_DataImport :: "'b \<Rightarrow> error + 'b"

definition GetResult :: "'b Applier \<Rightarrow> 'b" where
  "GetResult applier = a_building applier"

text \<open>
  The \<^verbatim>\<open>Provider\<close> interface. \<open>'b\<close> is the type of the child record, \<open>'e\<close> the type of the
  calls the provider makes on the child system.
\<close>

record ('b, 'e) Provider =
  GetApplier :: "DatabaseCluster \<Rightarrow> error + 'b Applier"
  Status :: "DatabaseCluster \<Rightarrow> 'e list \<times> (error + DatabaseClusterStatus)"
  Cleanup :: "DatabaseCluster \<Rightarrow> 'e list \<times> error option"
  PreReconcileHook :: "DatabaseCluster \<Rightarrow> 'e list \<times> (error + int)"
  Operations :: "'e OperationsHandler"

datatype step =
    StepMetadata | StepEngine | StepProxy | StepMonitoring | StepPodSchedulingPolicy
  | StepBackup | StepDataSource | StepDataImport

text \<open>The order in which \<^verbatim>\<open>applyTransformations\<close> calls the steps.\<close>

definition pipeline :: "step list" where
  "pipeline =
     [StepMetadata, StepEngine, StepProxy, StepMonitoring, StepPodSchedulingPolicy,
      StepBackup, StepDataSource, StepDataImport]"

text \<open>
  Events of a pass of the Cluster Controller. \<open>StepRun s ok\<close>: step \<open>s\<close> of the applier was
  called and returned no error (\<open>ok\<close>) or an error.
\<close>

datatype ('b, 'e) cluster_event =
    CallPreReconcileHook
  | CallCleanup
  | CallStatus
  | StepRun step bool
  | Update DatabaseCluster
  | CreateChild 'b
  | UpdateChild 'b
  | StatusUpdate DatabaseCluster
  | ChildCall 'e

record ('b, 'e) cluster_env =
  cr_Get :: "error + DatabaseCluster"
  cr_GetProvider :: "string \<Rightarrow> error + ('b, 'e) Provider"
  cr_Update :: "DatabaseCluster \<Rightarrow> error option"
  cr_Create :: "'b \<Rightarrow> error option"
  cr_Update_child :: "'b \<Rightarrow> error option"
  cr_Status_Update :: "DatabaseCluster \<Rightarrow> error option"

fun containsString :: "string list \<Rightarrow> string \<Rightarrow> bool" where
  "containsString [] s = False"
| "containsString (item # rest) s = (if item = s then True else containsString rest s)"

fun removeString :: "string list \<Rightarrow> string \<Rightarrow> string list" where
  "removeString [] s = []"
| "removeString (item # rest) s =
     (if item \<noteq> s then item # removeString rest s else removeString rest s)"

definition applyTransformations ::
  "'b Applier \<Rightarrow> ('b, 'e) cluster_event list \<times> (error + 'b Applier)" where
  "applyTransformations applier =
     (case a_Metadata applier (a_building applier) of
        Inl err \<Rightarrow>
          ([StepRun StepMetadata False], Inl (Errorf_w ''failed to apply metadata: '' err))
      | Inr b1 \<Rightarrow>
     (case a_Engine applier b1 of
        Inl err \<Rightarrow>
          ([StepRun StepMetadata True, StepRun StepEngine False],
           Inl (Errorf_w ''failed to apply engine: '' err))
      | Inr b2 \<Rightarrow>
     (case a_Proxy applier b2 of
        Inl err \<Rightarrow>
          ([StepRun StepMetadata True, StepRun StepEngine True, StepRun StepProxy False],
           Inl (Errorf_w ''failed to apply proxy: '' err))
      | Inr b3 \<Rightarrow>
     (case a_Monitoring applier b3 of
        Inl err \<Rightarrow>
          ([StepRun StepMetadata True, StepRun StepEngine True, StepRun StepProxy True,
            StepRun StepMonitoring False],
           Inl (Errorf_w ''failed to apply monitoring: '' err))
      | Inr b4 \<Rightarrow>
     (case a_PodSchedulingPolicy applier b4 of
        Inl err \<Rightarrow>
          ([StepRun StepMetadata True, StepRun StepEngine True, StepRun StepProxy True,
            StepRun StepMonitoring True, StepRun StepPodSchedulingPolicy False],
           Inl (Errorf_w ''failed to apply pod scheduling policy: '' err))
      | Inr b5 \<Rightarrow>
     (case a_Backup applier b5 of
        Inl err \<Rightarrow>
          ([StepRun StepMetadata True, StepRun StepEngine True, StepRun StepProxy True,
            StepRun StepMonitoring True, StepRun StepPodSchedulingPolicy True,
            StepRun StepBackup False],
           Inl (Errorf_w ''failed to apply backup: '' err))
      | Inr b6 \<Rightarrow>
     (case a_DataSource applier b6 of
        Inl err \<Rightarrow>
          ([StepRun StepMetadata True, StepRun StepEngine True, StepRun StepProxy True,
            StepRun StepMonitoring True, StepRun StepPodSchedulingPolicy True,
            StepRun StepBackup True, StepRun StepDataSource False],
           Inl (Errorf_w ''failed to apply data source: '' err))
      | Inr b7 \<Rightarrow>
     (case a_DataImport applier b7 of
        Inl err \<Rightarrow>
          ([StepRun StepMetadata True, StepRun StepEngine True, StepRun StepProxy True,
            StepRun StepMonitoring True, StepRun StepPodSchedulingPolicy True,
            StepRun StepBackup True, StepRun StepDataSource True, StepRun StepDataImport False],
           Inl (Errorf_w ''failed to apply data import: '' err))
      | Inr b8 \<Rightarrow>
          ([StepRun StepMetadata True, StepRun StepEngine True, StepRun StepProxy True,
            StepRun StepMonitoring True, StepRun StepPodSchedulingPolicy True,
            StepRun StepBackup True, StepRun StepDataSource True, StepRun StepDataImport True],
           Inr (applier\<lparr>a_building := b8\<rparr>))))))))))"

definition createOrUpdateChildCluster ::
  "('b, 'e) cluster_env \<Rightarrow> 'b \<Rightarrow> ('b, 'e) cluster_event list \<times> error option" where
  "createOrUpdateChildCluster r obj =
     (case cr_Create r obj of
        None \<Rightarrow> ([CreateChild obj], None)
      | Some err \<Rightarrow>
          if IsAlreadyExists err
          then ([CreateChild obj, UpdateChild obj], cr_Update_child r obj)
          else ([CreateChild obj], Some err))"

definition updateStatus ::
  "('b, 'e) cluster_env \<Rightarrow> DatabaseCluster \<Rightarrow> ('b, 'e) Provider
     \<Rightarrow> ('b, 'e) cluster_event list \<times> error option" where
  "updateStatus r cluster prov =
     (case Status prov cluster of
        (calls, Inl err) \<Rightarrow> (CallStatus # map ChildCall calls, Some err)
      | (calls, Inr status) \<Rightarrow>
          let updated = cluster\<lparr>dc_Status := status\<rparr>
          in (CallStatus # map ChildCall calls @ [StatusUpdate updated],
              cr_Status_Update r updated))"

definition handleDeletion ::
  "('b, 'e) cluster_env \<Rightarrow> DatabaseCluster \<Rightarrow> ('b, 'e) Provider
     \<Rightarrow> ('b, 'e) cluster_event list \<times> Result \<times> error option" where
  "handleDeletion r cluster prov =
     (if containsString (dc_Finalizers cluster) ''dbaas.io/finalizer''
      then
        (case Cleanup prov cluster of
           (calls, Some err) \<Rightarrow> (CallCleanup # map ChildCall calls, Result_empty, Some err)
         | (calls, None) \<Rightarrow>
             let released =
                   cluster\<lparr>dc_Finalizers :=
                     removeString (dc_Finalizers cluster) ''dbaas.io/finalizer''\<rparr>
             in (CallCleanup # map ChildCall calls @ [Update released], Result_empty,
                 cr_Update r released))
      else ([], Result_empty, None))"

text \<open>The part of \<^verbatim>\<open>Reconcile\<close> from \<^verbatim>\<open>GetApplier\<close> on.\<close>

definition buildAndApply ::
  "('b, 'e) cluster_env \<Rightarrow> DatabaseCluster \<Rightarrow> ('b, 'e) Provider
     \<Rightarrow> ('b, 'e) cluster_event list \<times> Result \<times> error option" where
  "buildAndApply r cluster prov =
     (case GetApplier prov cluster of
        Inl err \<Rightarrow> ([], Result_empty, Some err)
      | Inr applier \<Rightarrow>
          (case applyTransformations applier of
             (steps, Inl err) \<Rightarrow> (steps, Result_empty, Some err)
           | (steps, Inr built) \<Rightarrow>
               (case createOrUpdateChildCluster r (GetResult built) of
                  (writes, Some err) \<Rightarrow> (steps @ writes, Result_empty, Some err)
                | (writes, None) \<Rightarrow>
                    (case updateStatus r cluster prov of
                       (evs, Some err) \<Rightarrow> (steps @ writes @ evs, Result_empty, Some err)
                     | (evs, None) \<Rightarrow>
                         (steps @ writes @ evs, \<lparr>RequeueAfter = 30 * Second\<rparr>, None)))))"

definition DatabaseClusterReconciler_Reconcile ::
  "('b, 'e) cluster_env \<Rightarrow> ('b, 'e) cluster_event list \<times> Result \<times> error option" where
  "DatabaseClusterReconciler_Reconcile r =
     (case cr_Get r of
        Inl err \<Rightarrow>
          if IsNotFound err then ([], Result_empty, None) else ([], Result_empty, Some err)
      | Inr cluster \<Rightarrow>
          (case cr_GetProvider r (EngineType (dc_Spec cluster)) of
             Inl err \<Rightarrow> ([], Result_empty, Some err)
           | Inr prov \<Rightarrow>
               (case PreReconcileHook prov cluster of
                  (calls, Inl err) \<Rightarrow>
                    (CallPreReconcileHook # map ChildCall calls, Result_empty, Some err)
                | (calls, Inr requeueAfter) \<Rightarrow>
                    if requeueAfter > 0
                    then (CallPreReconcileHook # map ChildCall calls,
                          \<lparr>RequeueAfter = wrap64 (requeueAfter * Second)\<rparr>, None)
                    else
                      (case
                         (if \<not> IsZero (dc_DeletionTimestamp cluster)
                          then handleDeletion r cluster prov
                          else if \<not> containsString (dc_Finalizers cluster) ''dbaas.io/finalizer''
                          then
                            (let guarded =
                                   cluster\<lparr>dc_Finalizers :=
                                     dc_Finalizers cluster @ [''dbaas.io/finalizer'']\<rparr>
                             in case cr_Update r guarded of
                                  Some err \<Rightarrow> ([Update guarded], Result_empty, Some err)
                                | None \<Rightarrow>
                                    (case buildAndApply r guarded prov of
                                       (evs, res) \<Rightarrow> (Update guarded # evs, res)))
                          else buildAndApply r cluster prov)
                       of (evs, res) \<Rightarrow>
                            (CallPreReconcileHook # map ChildCall calls @ evs, res)))))"

section \<open>Observations on a pass of the Operation Controller\<close>

text \<open>The phases carried by the status writes of a pass, in the order written.\<close>

fun written_phases :: "'e ops_event list \<Rightarrow> string list" where
  "written_phases [] = []"
| "written_phases (OpsStatusUpdate ops # evs) = st_Phase (o_Status ops) # written_phases evs"
| "written_phases (OpsDelete ops # evs) = written_phases evs"
| "written_phases (Invoke m # evs) = written_phases evs"
| "written_phases (InvokeGetStatus # evs) = written_phases evs"
| "written_phases (OpsChildCall c # evs) = written_phases evs"

text \<open>
  The place of a phase in the sequence Pending, Running, Succeeded or Failed, read the
  way \<^verbatim>\<open>Reconcile\<close> tests it: the empty phase counts as Pending, and a phase that is
  neither pending nor terminal is treated as Running.
\<close>

definition phase_rank :: "string \<Rightarrow> nat" where
  "phase_rank phase =
     (if phase = [] \<or> phase = OpsRequestPhasePending then 0
      else if phase = OpsRequestPhaseSucceeded \<or> phase = OpsRequestPhaseFailed then 2
      else 1)"

section \<open>Sample inputs\<close>

text \<open>
  Concrete records, clients and environments on which the theorems below are evaluated:
  a PostgreSQL cluster \<open>pg\<close> in namespace \<open>default\<close>, its child record in a given
  phase, a client that answers each read as told and accepts every write, and
  environments in which every call on the record store succeeds.
\<close>

definition sample_cluster :: DatabaseCluster where
  "sample_cluster =
     \<lparr>dc_Name = ''pg'', dc_Namespace = ''default'', dc_Generation = 2,
      dc_CreationTimestamp = 100, dc_DeletionTimestamp = None,
      dc_Finalizers = [''dbaas.io/finalizer''],
      dc_Spec =
        \<lparr>EngineType = ''postgresql'', EngineVersion = ''16'', ClusterSize = 3,
         dcs_Backup = None, dcs_Monitoring = None, dcs_Proxy = None, dcs_DataSource = None\<rparr>,
      dc_Status = DatabaseClusterStatus_zero\<rparr>"

definition sample_child :: "string \<Rightarrow> cnpg_Cluster" where
  "sample_child phase =
     \<lparr>c_Name = ''pg'', c_Namespace = ''default'', c_Annotations = None,
      c_Spec =
        \<lparr>csp_Instances = 3, csp_ImageName = ''ghcr.io/cloudnative-pg/postgresql:16'',
         csp_StorageSize = ''10Gi'', csp_Resources = None, csp_Parameters = None,
         csp_Bootstrap = None\<rparr>,
      c_Status =
        \<lparr>cst_Phase = phase, cst_Instances = 3, cst_ReadyInstances = 3,
         cst_CurrentPrimary = ''pg-1'', cst_InstancesStatus = [],
         cst_FirstRecoverabilityPoint = [], cst_Conditions = []\<rparr>\<rparr>"

definition sample_client :: "(call_site \<Rightarrow> error + cnpg_Cluster) \<Rightarrow> cnpg_client" where
  "sample_client answer =
     \<lparr>client_Get = (\<lambda>site name namespace. answer site),
      client_Update = (\<lambda>c. None), client_Create = (\<lambda>b. None), client_Delete = (\<lambda>c. None),
      time_Now = 2000, Format_RFC3339 = (\<lambda>t. ''2026-01-01T00:00:00Z'')\<rparr>"

definition sample_ops :: "string \<Rightarrow> string \<Rightarrow> OpsRequest" where
  "sample_ops type phase =
     \<lparr>o_Name = ''op-1'', o_Namespace = ''default'',
      o_Spec =
        \<lparr>spec_ClusterRef = ''pg'', spec_Type = type, spec_HorizontalScaling = None,
         spec_VerticalScaling = None, spec_VolumeExpansion = None, spec_Reconfiguring = None,
         spec_Upgrade = None, spec_Backup = None, spec_Restore = None, spec_Switchover = None,
         spec_RebuildInstance = None, spec_Custom = None, spec_TTLSecondsAfterFinished = None\<rparr>,
      o_Status = OpsRequestStatus_zero\<lparr>st_Phase := phase\<rparr>\<rparr>"

text \<open>An operation that succeeded at instant 1000 and is to be kept for 60 seconds.\<close>

definition sample_finished_ops :: OpsRequest where
  "sample_finished_ops =
     (sample_ops ''Stop'' ''Succeeded'')
       \<lparr>o_Spec := (o_Spec (sample_ops ''Stop'' ''Succeeded''))
                    \<lparr>spec_TTLSecondsAfterFinished := Some 60\<rparr>,
        o_Status := (o_Status (sample_ops ''Stop'' ''Succeeded''))
                    \<lparr>st_CompletionTime := Some 1000\<rparr>\<rparr>"

definition sample_ops_env :: "OpsRequest \<Rightarrow> cnpg_client \<Rightarrow> child_call ops_env" where
  "sample_ops_env ops c =
     \<lparr>r_Get = Inr ops, r_Get_cluster = (\<lambda>name namespace. Inr sample_cluster),
      r_GetProvider = (\<lambda>engineType. Inr (NewOperationsHandler c)),
      r_Status_Update = (\<lambda>written. None), r_Delete = (\<lambda>deleted. None), r_Now = 2000\<rparr>"

text \<open>Answers of the child system: every read succeeds, or the read made by GetStatus fails.\<close>

definition reads_succeed :: "string \<Rightarrow> call_site \<Rightarrow> error + cnpg_Cluster" where
  "reads_succeed phase site = Inr (sample_child phase)"

definition status_read_times_out :: "call_site \<Rightarrow> error + cnpg_Cluster" where
  "status_read_times_out site =
     (if site = InGetStatus then Inl (Err ReasonTimeout ''context deadline exceeded'')
      else Inr (sample_child ''Setting up primary''))"

text \<open>A handler like the reference one, except that its status method returns an error.\<close>

definition status_method_fails :: "cnpg_client \<Rightarrow> child_call OperationsHandler" where
  "status_method_fails c =
     (NewOperationsHandler c)
       \<lparr>GetStatus := \<lambda>cluster ops. ([], Inl (Err ReasonTimeout ''context deadline exceeded''))\<rparr>"

text \<open>A running operation whose action log already holds an entry, written at instant 1500.\<close>

definition sample_logged_ops :: OpsRequest where
  "sample_logged_ops =
     (sample_ops ''Stop'' ''Running'')
       \<lparr>o_Status := (o_Status (sample_ops ''Stop'' ''Running''))
          \<lparr>st_ActionLog :=
             [\<lparr>al_Timestamp = 1500, al_Action = ''Stop'', al_Status = ''Running'',
               al_Message = ''Setting up primary''\<rparr>]\<rparr>\<rparr>"

text \<open>An applier whose steps leave the record unchanged, except that the chosen ones fail.\<close>

definition sample_step :: "(step \<Rightarrow> bool) \<Rightarrow> step \<Rightarrow> cnpg_Cluster \<Rightarrow> error + cnpg_Cluster" where
  "sample_step fails s b = (if fails s then Inl (Errorf ''invalid configuration'') else Inr b)"

definition sample_applier :: "(step \<Rightarrow> bool) \<Rightarrow> cnpg_Cluster Applier" where
  "sample_applier fails =
     \<lparr>a_building = sample_child [],
      a_Metadata = sample_step fails StepMetadata, a_Engine = sample_step fails StepEngine,
      a_Proxy = sample_step fails StepProxy, a_Monitoring = sample_step fails StepMonitoring,
      a_PodSchedulingPolicy = sample_step fails StepPodSchedulingPolicy,
      a_Backup = sample_step fails StepBackup, a_DataSource = sample_step fails StepDataSource,
      a_DataImport = sample_step fails StepDataImport\<rparr>"

definition sample_provider ::
  "cnpg_client \<Rightarrow> (step \<Rightarrow> bool) \<Rightarrow> (cnpg_Cluster, child_call) Provider" where
  "sample_provider c fails =
     \<lparr>GetApplier = (\<lambda>cluster. Inr (sample_applier fails)),
      Status = CNPGProvider_Status c, Cleanup = CNPGProvider_Cleanup c,
      PreReconcileHook = CNPGProvider_PreReconcileHook c,
      Operations = NewOperationsHandler c\<rparr>"

definition sample_cluster_env ::
  "DatabaseCluster \<Rightarrow> (cnpg_Cluster, child_call) Provider
     \<Rightarrow> (cnpg_Cluster, child_call) cluster_env" where
  "sample_cluster_env cluster prov =
     \<lparr>cr_Get = Inr cluster, cr_GetProvider = (\<lambda>engineType. Inr prov),
      cr_Update = (\<lambda>written. None), cr_Create = (\<lambda>child. None),
      cr_Update_child = (\<lambda>child. None), cr_Status_Update = (\<lambda>written. None)\<rparr>"

definition no_step_fails :: "step \<Rightarrow> bool" where
  "no_step_fails s = False"

definition engine_step_fails :: "step \<Rightarrow> bool" where
  "engine_step_fails s = (s = StepEngine)"


text \<open>The sample cluster with a status left by an earlier pass.\<close>

definition sample_stale_cluster :: DatabaseCluster where
  "sample_stale_cluster =
     sample_cluster
       \<lparr>dc_Status := DatabaseClusterStatus_zero
          \<lparr>cs_Phase := ''Ready'',
           cs_Backup := Some \<lparr>bs_LastBackupTime = Some 50, bs_NextBackupTime = None,
                              bs_LastBackupName = ''nightly''\<rparr>,
           cs_ObservedGeneration := 1,
           cs_Message := ''all instances ready''\<rparr>\<rparr>"

section \<open>Basic facts\<close>

lemmas OpsRequestType_defs =
  OpsRequestTypeStart_def OpsRequestTypeStop_def OpsRequestTypeRestart_def
  OpsRequestTypeSwitchover_def OpsRequestTypeVerticalScaling_def
  OpsRequestTypeHorizontalScaling_def OpsRequestTypeVolumeExpansion_def
  OpsRequestTypeReconfiguring_def OpsRequestTypeUpgrade_def OpsRequestTypeBackup_def
  OpsRequestTypeRestore_def OpsRequestTypeExpose_def OpsRequestTypeRebuildInstance_def
  OpsRequestTypeCustom_def

lemmas OpsRequestPhase_defs =
  OpsRequestPhasePending_def OpsRequestPhaseRunning_def OpsRequestPhaseSucceeded_def
  OpsRequestPhaseFailed_def

lemmas ClusterPhase_defs =
  ClusterPhaseInitializing_def ClusterPhaseReady_def ClusterPhaseUpdating_def
  ClusterPhaseFailed_def ClusterPhaseDeleting_def

section \<open>The status mapper's phase table\<close>

text \<open>None of the later blocks of \<^verbatim>\<open>Status\<close> touches the phase set by the first.\<close>

lemma cs_Phase_map_database: "cs_Phase (map_database cluster child s) = cs_Phase s"
  by (simp add: map_database_def)
lemma cs_Phase_map_backup: "cs_Phase (map_backup cluster child s) = cs_Phase s"
  by (simp add: map_backup_def split: option.splits)
lemma cs_Phase_map_monitoring: "cs_Phase (map_monitoring cluster s) = cs_Phase s"
  by (simp add: map_monitoring_def split: option.splits)
lemma cs_Phase_map_proxy: "cs_Phase (map_proxy cluster s) = cs_Phase s"
  by (simp add: map_proxy_def split: option.splits)
lemma cs_Phase_set_message: "cs_Phase (set_message child s) = cs_Phase s"
  by (simp add: set_message_def split: list.splits)

lemma cs_Phase_map_phase:
  "cs_Phase (map_phase child s) =
     (if cst_Phase child = [] then ClusterPhaseInitializing
      else mapCNPGPhaseToDBaaSPhase (cst_Phase child))"
  by (simp add: map_phase_def)

lemma Status_phase:
  "client_Get p InStatus (dc_Name cluster) (dc_Namespace cluster) = Inr child \<Longrightarrow>
   \<exists>st. CNPGProvider_Status p cluster =
          ([ChildGet (dc_Name cluster) (dc_Namespace cluster)], Inr st) \<and>
        cs_Phase st =
          (if cst_Phase (c_Status child) = [] then ClusterPhaseInitializing
           else mapCNPGPhaseToDBaaSPhase (cst_Phase (c_Status child)))"
  by (simp add: CNPGProvider_Status_def Let_def cs_Phase_map_database cs_Phase_map_backup
        cs_Phase_map_monitoring cs_Phase_map_proxy cs_Phase_set_message cs_Phase_map_phase)

text \<open>
  Claim C8. Whatever phase text the child record reports, the status mapper of the
  reference delegate yields the unified phase by a fixed table: the text
  \<open>Cluster in healthy state\<close> gives Ready, \<open>Creating primary instance\<close> gives Initializing,
  \<open>Upgrading cluster\<close> gives Updating, and every other text, the empty one included, gives
  Initializing. The result is never Failed, and it is Ready for the healthy text only.
\<close>

theorem status_phase_lookup:
  assumes "client_Get p InStatus (dc_Name cluster) (dc_Namespace cluster) = Inr child"
  shows "\<exists>st. CNPGProvider_Status p cluster =
               ([ChildGet (dc_Name cluster) (dc_Namespace cluster)], Inr st) \<and>
             cs_Phase st =
               (if cst_Phase (c_Status child) = ''Cluster in healthy state'' then ClusterPhaseReady
                else if cst_Phase (c_Status child) = ''Creating primary instance''
                  then ClusterPhaseInitializing
                else if cst_Phase (c_Status child) = ''Upgrading cluster'' then ClusterPhaseUpdating
                else ClusterPhaseInitializing) \<and>
             cs_Phase st \<noteq> ClusterPhaseFailed \<and>
             (cs_Phase st = ClusterPhaseReady) =
               (cst_Phase (c_Status child) = ''Cluster in healthy state'')"
proof -
  from Status_phase [OF assms] obtain st where
    run: "CNPGProvider_Status p cluster =
            ([ChildGet (dc_Name cluster) (dc_Namespace cluster)], Inr st)" and
    ph: "cs_Phase st =
          (if cst_Phase (c_Status child) = [] then ClusterPhaseInitializing
           else mapCNPGPhaseToDBaaSPhase (cst_Phase (c_Status child)))"
    by blast
  have tab: "cs_Phase st =
               (if cst_Phase (c_Status child) = ''Cluster in healthy state'' then ClusterPhaseReady
                else if cst_Phase (c_Status child) = ''Creating primary instance''
                  then ClusterPhaseInitializing
                else if cst_Phase (c_Status child) = ''Upgrading cluster'' then ClusterPhaseUpdating
                else ClusterPhaseInitializing)"
    unfolding ph by (simp add: mapCNPGPhaseToDBaaSPhase_def)
  have nf: "cs_Phase st \<noteq> ClusterPhaseFailed"
    unfolding tab by (simp add: ClusterPhase_defs)
  have rd: "(cs_Phase st = ClusterPhaseReady) =
              (cst_Phase (c_Status child) = ''Cluster in healthy state'')"
    unfolding tab by (simp add: ClusterPhase_defs)
  from run tab nf rd show ?thesis by blast
qed

theorem status_phase_lookup_witness:
  "client_Get (sample_client (\<lambda>site. Inr (sample_child ''Setting up primary''))) InStatus
     (dc_Name sample_cluster) (dc_Namespace sample_cluster)
     = Inr (sample_child ''Setting up primary'') \<and>
   (\<exists>st. CNPGProvider_Status (sample_client (\<lambda>site. Inr (sample_child ''Setting up primary'')))
            sample_cluster = ([ChildGet ''pg'' ''default''], Inr st) \<and>
         cs_Phase st = ''Initializing'')"
proof -
  have h: "client_Get (sample_client (\<lambda>site. Inr (sample_child ''Setting up primary''))) InStatus
     (dc_Name sample_cluster) (dc_Namespace sample_cluster)
     = Inr (sample_child ''Setting up primary'')"
    by (simp add: sample_client_def)
  from status_phase_lookup [OF h] obtain st where
    "CNPGProvider_Status (sample_client (\<lambda>site. Inr (sample_child ''Setting up primary'')))
            sample_cluster = ([ChildGet (dc_Name sample_cluster) (dc_Namespace sample_cluster)], Inr st)"
    "cs_Phase st =
               (if cst_Phase (c_Status (sample_child ''Setting up primary'')) = ''Cluster in healthy state'' then ClusterPhaseReady
                else if cst_Phase (c_Status (sample_child ''Setting up primary'')) = ''Creating primary instance''
                  then ClusterPhaseInitializing
                else if cst_Phase (c_Status (sample_child ''Setting up primary'')) = ''Upgrading cluster'' then ClusterPhaseUpdating
                else ClusterPhaseInitializing)"
    by blast
  then have "CNPGProvider_Status (sample_client (\<lambda>site. Inr (sample_child ''Setting up primary'')))
            sample_cluster = ([ChildGet ''pg'' ''default''], Inr st) \<and> cs_Phase st = ''Initializing''"
    by (simp add: sample_cluster_def sample_child_def ClusterPhase_defs)
  with h show ?thesis by blast
qed

section \<open>Terminal operations: expiry\<close>

text \<open>The TTL of an operation never leaves the int64 range, so the product does not wrap.\<close>

lemma wrap64_id: "- (2 ^ 63) \<le> x \<Longrightarrow> x < 2 ^ 63 \<Longrightarrow> wrap64 x = x"
  by (simp add: wrap64_def)

lemma ttl_Duration_eq: "ttl_Duration d = sint d * 1000000000"
proof -
  have lo: "- (2 ^ 31) \<le> sint d" using sint_ge [of d] by simp
  have hi: "sint d < 2 ^ 31" using sint_lt [of d] by simp
  have "- (2 ^ 63) \<le> sint d * 1000000000" using lo by simp
  moreover have "sint d * 1000000000 < 2 ^ 63" using hi by simp
  ultimately show ?thesis by (simp add: ttl_Duration_def Second_def wrap64_id)
qed

lemma ttl_Duration_bounds:
  "- 4611686018427387904 < ttl_Duration d \<and> ttl_Duration d < 4611686018427387904"
proof -
  have lo: "- 2147483648 \<le> sint d" using sint_ge [of d] by simp
  have hi: "sint d < 2147483648" using sint_lt [of d] by simp
  show ?thesis unfolding ttl_Duration_eq using lo hi by linarith
qed

lemma since_exceeds_ttl:
  "(time_Since now t > ttl_Duration d) = (now - t > sint d * Second)"
proof -
  have b: "- 4611686018427387904 < ttl_Duration d \<and> ttl_Duration d < 4611686018427387904"
    by (rule ttl_Duration_bounds)
  have e: "sint d * Second = ttl_Duration d" by (simp add: ttl_Duration_eq Second_def)
  have mx: "maxDuration = 9223372036854775807" by (simp add: maxDuration_def)
  have mn: "minDuration = - 9223372036854775808" by (simp add: minDuration_def)
  show ?thesis
    unfolding e time_Since_def time_Sub_def mx mn using b by (simp only: split: if_splits) linarith
qed

text \<open>A pass over a record in a terminal phase only looks at the TTL.\<close>

lemma terminal_pass:
  assumes "r_Get r = Inr ops"
      and "st_Phase (o_Status ops) = OpsRequestPhaseSucceeded
           \<or> st_Phase (o_Status ops) = OpsRequestPhaseFailed"
  shows "OpsRequestReconciler_Reconcile r =
           (case (spec_TTLSecondsAfterFinished (o_Spec ops), st_CompletionTime (o_Status ops)) of
              (Some d, Some completed) \<Rightarrow>
                if time_Since (r_Now r) completed > ttl_Duration d
                then ([OpsDelete ops], Result_empty, r_Delete r ops)
                else ([], Result_empty, None)
            | _ \<Rightarrow> ([], Result_empty, None))"
  using assms by (auto simp add: OpsRequestReconciler_Reconcile_def)

lemma terminal_trace:
  assumes "r_Get r = Inr ops"
      and "st_Phase (o_Status ops) = OpsRequestPhaseSucceeded
           \<or> st_Phase (o_Status ops) = OpsRequestPhaseFailed"
  shows "fst (OpsRequestReconciler_Reconcile r) = []
         \<or> fst (OpsRequestReconciler_Reconcile r) = [OpsDelete ops]"
  unfolding terminal_pass [OF assms] by (simp split: option.splits)

text \<open>
  Claim C6. For an OpsRequest in phase Succeeded or Failed that has a completion time
  \<open>t\<close> and a TTL of \<open>d\<close> seconds, a pass at clock reading \<open>now\<close> issues the deletion of the
  record exactly when \<open>now - t\<close> exceeds \<open>d\<close> seconds, and otherwise does nothing at all:
  the record is never deleted before \<open>t + d\<close>.
\<close>

theorem ttl_boundary:
  assumes "r_Get r = Inr ops"
      and "st_Phase (o_Status ops) = OpsRequestPhaseSucceeded
           \<or> st_Phase (o_Status ops) = OpsRequestPhaseFailed"
      and "spec_TTLSecondsAfterFinished (o_Spec ops) = Some d"
      and "st_CompletionTime (o_Status ops) = Some t"
  shows "OpsRequestReconciler_Reconcile r =
           (if r_Now r - t > sint d * Second
            then ([OpsDelete ops], Result_empty, r_Delete r ops)
            else ([], Result_empty, None))"
  unfolding terminal_pass [OF assms(1,2)] using assms(3,4) by (simp add: since_exceeds_ttl)

theorem ttl_boundary_witness:
  "r_Get (sample_ops_env sample_finished_ops (sample_client (\<lambda>site. Inr (sample_child []))))
     = Inr sample_finished_ops \<and>
   st_Phase (o_Status sample_finished_ops) = OpsRequestPhaseSucceeded \<and>
   spec_TTLSecondsAfterFinished (o_Spec sample_finished_ops) = Some 60 \<and>
   st_CompletionTime (o_Status sample_finished_ops) = Some 1000 \<and>
   OpsRequestReconciler_Reconcile
     ((sample_ops_env sample_finished_ops (sample_client (\<lambda>site. Inr (sample_child []))))
        \<lparr>r_Now := 60000001000\<rparr>) = ([], Result_empty, None) \<and>
   OpsRequestReconciler_Reconcile
     ((sample_ops_env sample_finished_ops (sample_client (\<lambda>site. Inr (sample_child []))))
        \<lparr>r_Now := 60000001001\<rparr>) = ([OpsDelete sample_finished_ops], Result_empty, None)"
proof -
  let ?env = "sample_ops_env sample_finished_ops (sample_client (\<lambda>site. Inr (sample_child [])))"
  have g: "r_Get ?env = Inr sample_finished_ops" by (simp add: sample_ops_env_def)
  have ph: "st_Phase (o_Status sample_finished_ops) = OpsRequestPhaseSucceeded"
    by (simp add: sample_finished_ops_def sample_ops_def OpsRequestStatus_zero_def
          OpsRequestPhase_defs)
  have ttl: "spec_TTLSecondsAfterFinished (o_Spec sample_finished_ops) = Some 60"
    by (simp add: sample_finished_ops_def sample_ops_def)
  have ct: "st_CompletionTime (o_Status sample_finished_ops) = Some 1000"
    by (simp add: sample_finished_ops_def sample_ops_def OpsRequestStatus_zero_def)
  have g1: "r_Get (?env\<lparr>r_Now := 60000001000\<rparr>) = Inr sample_finished_ops"
    by (simp add: sample_ops_env_def)
  have g2: "r_Get (?env\<lparr>r_Now := 60000001001\<rparr>) = Inr sample_finished_ops"
    by (simp add: sample_ops_env_def)
  have before: "OpsRequestReconciler_Reconcile (?env\<lparr>r_Now := 60000001000\<rparr>)
                  = ([], Result_empty, None)"
    using ttl_boundary [OF g1 disjI1 [OF ph] ttl ct] by (simp add: Second_def)
  have after: "OpsRequestReconciler_Reconcile (?env\<lparr>r_Now := 60000001001\<rparr>)
                 = ([OpsDelete sample_finished_ops], Result_empty, None)"
    using ttl_boundary [OF g2 disjI1 [OF ph] ttl ct]
    by (simp add: Second_def sample_ops_env_def)
  from g ph ttl ct before after show ?thesis by simp
qed

section \<open>Failure to fetch the target cluster\<close>

text \<open>
  Claim C10. In a pass over an OpsRequest that is not yet terminal, any error whatever
  of the read of the referenced DatabaseCluster (not-found or not) makes the controller
  write phase Failed, the message \<open>target cluster not found:\<close> followed by the error text,
  and the clock reading as completion time, and end the pass without requeueing. Once that
  write is stored the record is terminal: later passes over it do nothing but, at most,
  delete it.
\<close>

theorem cluster_fetch_error_is_terminal:
  assumes "r_Get r = Inr ops"
      and "st_Phase (o_Status ops) \<noteq> OpsRequestPhaseSucceeded"
      and "st_Phase (o_Status ops) \<noteq> OpsRequestPhaseFailed"
      and "r_Get_cluster r (spec_ClusterRef (o_Spec ops)) (o_Namespace ops) = Inl err"
  shows "\<exists>failed.
           failed = ops\<lparr>o_Status := (o_Status ops)
                      \<lparr>st_Phase := OpsRequestPhaseFailed,
                       st_Message := ''target cluster not found: '' @ Error err,
                       st_CompletionTime := Some (r_Now r)\<rparr>\<rparr> \<and>
           OpsRequestReconciler_Reconcile r =
             ([OpsStatusUpdate failed], Result_empty, r_Status_Update r failed) \<and>
           (\<forall>r'. r_Get r' = Inr failed \<longrightarrow>
                  fst (OpsRequestReconciler_Reconcile r') = []
                  \<or> fst (OpsRequestReconciler_Reconcile r') = [OpsDelete failed])"
proof -
  let ?failed = "ops\<lparr>o_Status := (o_Status ops)
                      \<lparr>st_Phase := OpsRequestPhaseFailed,
                       st_Message := ''target cluster not found: '' @ Error err,
                       st_CompletionTime := Some (r_Now r)\<rparr>\<rparr>"
  have run: "OpsRequestReconciler_Reconcile r =
             ([OpsStatusUpdate ?failed], Result_empty, r_Status_Update r ?failed)"
    using assms by (simp add: OpsRequestReconciler_Reconcile_def updateStatusFailed_def Let_def)
  have ph: "st_Phase (o_Status ?failed) = OpsRequestPhaseSucceeded
            \<or> st_Phase (o_Status ?failed) = OpsRequestPhaseFailed" by simp
  have inert: "\<forall>r'. r_Get r' = Inr ?failed \<longrightarrow>
                  fst (OpsRequestReconciler_Reconcile r') = []
                  \<or> fst (OpsRequestReconciler_Reconcile r') = [OpsDelete ?failed]"
    using terminal_trace [OF _ ph] by blast
  from run inert show ?thesis by blast
qed

theorem cluster_fetch_error_is_terminal_witness:
  "r_Get ((sample_ops_env (sample_ops ''Stop'' ''Pending'')
             (sample_client (\<lambda>site. Inr (sample_child []))))
            \<lparr>r_Get_cluster := \<lambda>name namespace. Inl (Err ReasonTimeout ''i/o timeout'')\<rparr>)
     = Inr (sample_ops ''Stop'' ''Pending'') \<and>
   st_Phase (o_Status (sample_ops ''Stop'' ''Pending'')) \<noteq> OpsRequestPhaseSucceeded \<and>
   st_Phase (o_Status (sample_ops ''Stop'' ''Pending'')) \<noteq> OpsRequestPhaseFailed \<and>
   OpsRequestReconciler_Reconcile
     ((sample_ops_env (sample_ops ''Stop'' ''Pending'')
         (sample_client (\<lambda>site. Inr (sample_child []))))
        \<lparr>r_Get_cluster := \<lambda>name namespace. Inl (Err ReasonTimeout ''i/o timeout'')\<rparr>)
     = ([OpsStatusUpdate
           ((sample_ops ''Stop'' ''Pending'')
              \<lparr>o_Status := OpsRequestStatus_zero
                 \<lparr>st_Phase := ''Failed'',
                  st_Message := ''target cluster not found: i/o timeout'',
                  st_CompletionTime := Some 2000\<rparr>\<rparr>)],
        Result_empty, None)"
proof -
  let ?ops = "sample_ops ''Stop'' ''Pending''"
  let ?env = "(sample_ops_env ?ops (sample_client (\<lambda>site. Inr (sample_child []))))
                \<lparr>r_Get_cluster := \<lambda>name namespace. Inl (Err ReasonTimeout ''i/o timeout'')\<rparr>"
  have g: "r_Get ?env = Inr ?ops" by (simp add: sample_ops_env_def)
  have p1: "st_Phase (o_Status ?ops) \<noteq> OpsRequestPhaseSucceeded"
    by (simp add: sample_ops_def OpsRequestStatus_zero_def OpsRequestPhase_defs)
  have p2: "st_Phase (o_Status ?ops) \<noteq> OpsRequestPhaseFailed"
    by (simp add: sample_ops_def OpsRequestStatus_zero_def OpsRequestPhase_defs)
  have c: "r_Get_cluster ?env (spec_ClusterRef (o_Spec ?ops)) (o_Namespace ?ops)
             = Inl (Err ReasonTimeout ''i/o timeout'')"
    by simp
  from cluster_fetch_error_is_terminal [OF g p1 p2 c]
  have "OpsRequestReconciler_Reconcile ?env =
          ([OpsStatusUpdate (?ops\<lparr>o_Status := (o_Status ?ops)
                      \<lparr>st_Phase := OpsRequestPhaseFailed,
                       st_Message := ''target cluster not found: '' @ Error (Err ReasonTimeout ''i/o timeout''),
                       st_CompletionTime := Some (r_Now ?env)\<rparr>\<rparr>)], Result_empty,
           r_Status_Update ?env (?ops\<lparr>o_Status := (o_Status ?ops)
                      \<lparr>st_Phase := OpsRequestPhaseFailed,
                       st_Message := ''target cluster not found: '' @ Error (Err ReasonTimeout ''i/o timeout''),
                       st_CompletionTime := Some (r_Now ?env)\<rparr>\<rparr>))"
    by blast
  then have "OpsRequestReconciler_Reconcile ?env
     = ([OpsStatusUpdate
           (?ops\<lparr>o_Status := OpsRequestStatus_zero
                 \<lparr>st_Phase := ''Failed'',
                  st_Message := ''target cluster not found: i/o timeout'',
                  st_CompletionTime := Some 2000\<rparr>\<rparr>)],
        Result_empty, None)"
    by (simp add: sample_ops_env_def sample_ops_def OpsRequestStatus_zero_def OpsRequestPhase_defs)
  with g p1 p2 show ?thesis by blast
qed

section \<open>The phase of an operation only moves forward\<close>

text \<open>Only status writes carry a phase; dispatch and polling write nothing themselves.\<close>

lemma written_phases_append:
  "written_phases (xs @ ys) = written_phases xs @ written_phases ys"
  by (induction xs rule: written_phases.induct) simp_all

lemma written_phases_child_calls: "written_phases (map OpsChildCall calls) = []"
  by (induction calls) simp_all

lemma written_phases_invoke: "written_phases (fst (invoke m res)) = []"
  by (simp add: invoke_def written_phases_child_calls)

lemma written_phases_executeOperation:
  "written_phases (fst (executeOperation h cluster ops)) = []"
  by (simp add: executeOperation_def Let_def written_phases_invoke)

lemma phase_rank_values:
  "phase_rank OpsRequestPhaseRunning = 1"
  "phase_rank OpsRequestPhaseSucceeded = 2"
  "phase_rank OpsRequestPhaseFailed = 2"
  by (simp_all add: phase_rank_def OpsRequestPhase_defs)

lemma written_phases_updateStatusFailed:
  "written_phases (fst (updateStatusFailed r ops message)) = [OpsRequestPhaseFailed]"
  by (simp add: updateStatusFailed_def Let_def)

lemma written_phases_executeAndPoll:
  assumes "\<forall>calls st. GetStatus h cluster ops = (calls, Inr st) \<longrightarrow> 1 \<le> phase_rank (st_Phase st)"
  shows "written_phases (fst (executeAndPoll r h cluster ops)) = []
         \<or> (\<exists>q. written_phases (fst (executeAndPoll r h cluster ops)) = [q] \<and> 1 \<le> phase_rank q)"
proof (cases "executeOperation h cluster ops")
  case (Pair evs res)
  have evs: "written_phases evs = []"
    using written_phases_executeOperation [of h cluster ops] Pair by simp
  show ?thesis
  proof (cases res)
    case (Some err)
    obtain evs' res' where f: "updateStatusFailed r ops (Error err) = (evs', res')"
      by (cases "updateStatusFailed r ops (Error err)")
    have "written_phases evs' = [OpsRequestPhaseFailed]"
      using written_phases_updateStatusFailed [of r ops "Error err"] f by simp
    then have "written_phases (fst (executeAndPoll r h cluster ops)) = [OpsRequestPhaseFailed]"
      using Pair Some f evs by (simp add: executeAndPoll_def written_phases_append)
    then show ?thesis by (simp add: phase_rank_values)
  next
    case None
    obtain calls st where g: "GetStatus h cluster ops = (calls, st)"
      by (cases "GetStatus h cluster ops")
    show ?thesis
    proof (cases st)
      case (Inl err)
      then show ?thesis using Pair None g evs
        by (simp add: executeAndPoll_def written_phases_append written_phases_child_calls)
    next
      case (Inr status)
      with assms g have rk: "1 \<le> phase_rank (st_Phase status)" by simp
      have "written_phases (fst (executeAndPoll r h cluster ops)) = [st_Phase status]"
        using Pair None g Inr evs
        by (simp add: executeAndPoll_def Let_def written_phases_append written_phases_child_calls
              split: option.splits)
      with rk show ?thesis by simp
    qed
  qed
qed


lemma phase_rank_nonterminal:
  "phase \<noteq> OpsRequestPhaseSucceeded \<Longrightarrow> phase \<noteq> OpsRequestPhaseFailed \<Longrightarrow> phase_rank phase \<le> 1"
  by (auto simp add: phase_rank_def)

lemma reconcile_phases:
  assumes get: "r_Get r = Inr ops"
      and rep: "\<forall>t h c req calls st.
                  r_GetProvider r t = Inr h \<and> GetStatus h c req = (calls, Inr st) \<longrightarrow>
                  st_Phase st = OpsRequestPhaseRunning \<or> st_Phase st = OpsRequestPhaseSucceeded
                  \<or> st_Phase st = OpsRequestPhaseFailed"
  shows "written_phases (fst (OpsRequestReconciler_Reconcile r)) = []
       \<or> (\<exists>q. written_phases (fst (OpsRequestReconciler_Reconcile r)) = [q]
               \<and> 1 \<le> phase_rank q \<and> phase_rank (st_Phase (o_Status ops)) \<le> 1)
       \<or> (\<exists>q. written_phases (fst (OpsRequestReconciler_Reconcile r)) = [OpsRequestPhaseRunning, q]
               \<and> 1 \<le> phase_rank q \<and> phase_rank (st_Phase (o_Status ops)) \<le> 1)"
proof (cases "st_Phase (o_Status ops) = OpsRequestPhaseSucceeded
              \<or> st_Phase (o_Status ops) = OpsRequestPhaseFailed")
  case True
  from terminal_trace [OF get True] show ?thesis by auto
next
  case False
  then have low: "phase_rank (st_Phase (o_Status ops)) \<le> 1"
    using phase_rank_nonterminal [of "st_Phase (o_Status ops)"] by blast
  show ?thesis
  proof (cases "r_Get_cluster r (spec_ClusterRef (o_Spec ops)) (o_Namespace ops)")
    case (Inl err)
    then have "written_phases (fst (OpsRequestReconciler_Reconcile r)) = [OpsRequestPhaseFailed]"
      using get False
      by (simp add: OpsRequestReconciler_Reconcile_def written_phases_updateStatusFailed)
    with low show ?thesis by (simp add: phase_rank_values)
  next
    case (Inr cluster)
    show ?thesis
    proof (cases "r_GetProvider r (EngineType (dc_Spec cluster))")
      case (Inl err)
      then have "written_phases (fst (OpsRequestReconciler_Reconcile r)) = [OpsRequestPhaseFailed]"
        using get False Inr
        by (simp add: OpsRequestReconciler_Reconcile_def written_phases_updateStatusFailed)
      with low show ?thesis by (simp add: phase_rank_values)
    next
      case h: (Inr opsHandler)
      have rk: "\<forall>cur calls st. GetStatus opsHandler cluster cur = (calls, Inr st) \<longrightarrow>
                  1 \<le> phase_rank (st_Phase st)"
      proof (intro allI impI)
        fix cur calls st
        assume "GetStatus opsHandler cluster cur = (calls, Inr st)"
        with rep h have "st_Phase st = OpsRequestPhaseRunning
                         \<or> st_Phase st = OpsRequestPhaseSucceeded
                         \<or> st_Phase st = OpsRequestPhaseFailed" by blast
        then show "1 \<le> phase_rank (st_Phase st)" by (auto simp add: phase_rank_values)
      qed
      show ?thesis
      proof (cases "st_Phase (o_Status ops) = [] \<or> st_Phase (o_Status ops) = OpsRequestPhasePending")
        case pending: True
        let ?running = "ops\<lparr>o_Status := (o_Status ops)\<lparr>st_Phase := OpsRequestPhaseRunning,
                                                 st_StartTime := Some (r_Now r)\<rparr>\<rparr>"
        show ?thesis
        proof (cases "r_Status_Update r ?running")
          case (Some err)
          then have "written_phases (fst (OpsRequestReconciler_Reconcile r)) = [OpsRequestPhaseRunning]"
            using get False Inr h pending
            by (simp add: OpsRequestReconciler_Reconcile_def Let_def)
          with low show ?thesis by (simp add: phase_rank_values)
        next
          case None
          then have eq: "written_phases (fst (OpsRequestReconciler_Reconcile r)) =
                       OpsRequestPhaseRunning
                         # written_phases (fst (executeAndPoll r opsHandler cluster ?running))"
            using get False Inr h pending
            by (simp add: OpsRequestReconciler_Reconcile_def Let_def split: prod.splits)
          from written_phases_executeAndPoll [of opsHandler cluster ?running r] rk
          have "written_phases (fst (executeAndPoll r opsHandler cluster ?running)) = []
                \<or> (\<exists>q. written_phases (fst (executeAndPoll r opsHandler cluster ?running)) = [q]
                        \<and> 1 \<le> phase_rank q)" by blast
          with eq low show ?thesis by (auto simp add: phase_rank_values)
        qed
      next
        case running: False
        then have eq: "written_phases (fst (OpsRequestReconciler_Reconcile r)) =
                       written_phases (fst (executeAndPoll r opsHandler cluster ops))"
          using get False Inr h by (simp add: OpsRequestReconciler_Reconcile_def)
        from written_phases_executeAndPoll [of opsHandler cluster ops r] rk
        have "written_phases (fst (executeAndPoll r opsHandler cluster ops)) = []
              \<or> (\<exists>q. written_phases (fst (executeAndPoll r opsHandler cluster ops)) = [q]
                      \<and> 1 \<le> phase_rank q)" by blast
        with eq low show ?thesis by auto
      qed
    qed
  qed
qed

text \<open>The status method of the reference delegate reports Running, Succeeded or Failed.\<close>

lemma CNPG_GetStatus_reports:
  "\<exists>calls st. CNPG_GetStatus c cluster ops = (calls, Inr st) \<and>
     (st_Phase st = OpsRequestPhaseRunning \<or> st_Phase st = OpsRequestPhaseSucceeded
      \<or> st_Phase st = OpsRequestPhaseFailed)"
  by (simp add: CNPG_GetStatus_def Let_def OpsRequestStatus_zero_def split: sum.splits)

text \<open>
  Claim C2. A pass over an OpsRequest whose phase is Succeeded or Failed writes no status
  and calls no delegate method: its whole trace is empty or the single deletion of the
  record. For every pass, as long as the delegate's status method reports only Running,
  Succeeded or Failed (as the reference delegate does), the phase the record had followed
  by the phases the pass writes never steps back in the order Pending, Running,
  Succeeded or Failed, and every write but the last of a pass writes Running.
\<close>

theorem terminal_phase_is_final:
  assumes "r_Get r = Inr ops"
  shows "(st_Phase (o_Status ops) = OpsRequestPhaseSucceeded
          \<or> st_Phase (o_Status ops) = OpsRequestPhaseFailed \<longrightarrow>
            fst (OpsRequestReconciler_Reconcile r) = []
            \<or> fst (OpsRequestReconciler_Reconcile r) = [OpsDelete ops])
       \<and> ((\<forall>t h c req calls st.
              r_GetProvider r t = Inr h \<and> GetStatus h c req = (calls, Inr st) \<longrightarrow>
              st_Phase st = OpsRequestPhaseRunning \<or> st_Phase st = OpsRequestPhaseSucceeded
              \<or> st_Phase st = OpsRequestPhaseFailed) \<longrightarrow>
           sorted (map phase_rank
                     (st_Phase (o_Status ops)
                        # written_phases (fst (OpsRequestReconciler_Reconcile r))))
           \<and> (\<forall>i. Suc i < length (written_phases (fst (OpsRequestReconciler_Reconcile r))) \<longrightarrow>
                  written_phases (fst (OpsRequestReconciler_Reconcile r)) ! i
                    = OpsRequestPhaseRunning))"
proof (intro conjI impI)
  assume "st_Phase (o_Status ops) = OpsRequestPhaseSucceeded
          \<or> st_Phase (o_Status ops) = OpsRequestPhaseFailed"
  from terminal_trace [OF assms this]
  show "fst (OpsRequestReconciler_Reconcile r) = []
        \<or> fst (OpsRequestReconciler_Reconcile r) = [OpsDelete ops]" .
next
  assume rep: "\<forall>t h c req calls st.
              r_GetProvider r t = Inr h \<and> GetStatus h c req = (calls, Inr st) \<longrightarrow>
              st_Phase st = OpsRequestPhaseRunning \<or> st_Phase st = OpsRequestPhaseSucceeded
              \<or> st_Phase st = OpsRequestPhaseFailed"
  from reconcile_phases [OF assms rep]
  show "sorted (map phase_rank
                     (st_Phase (o_Status ops)
                        # written_phases (fst (OpsRequestReconciler_Reconcile r))))"
    by (auto simp add: phase_rank_values)
next
  assume rep: "\<forall>t h c req calls st.
              r_GetProvider r t = Inr h \<and> GetStatus h c req = (calls, Inr st) \<longrightarrow>
              st_Phase st = OpsRequestPhaseRunning \<or> st_Phase st = OpsRequestPhaseSucceeded
              \<or> st_Phase st = OpsRequestPhaseFailed"
  from reconcile_phases [OF assms rep]
  show "\<forall>i. Suc i < length (written_phases (fst (OpsRequestReconciler_Reconcile r))) \<longrightarrow>
                  written_phases (fst (OpsRequestReconciler_Reconcile r)) ! i
                    = OpsRequestPhaseRunning"
    by auto
qed

theorem terminal_phase_is_final_witness:
  "r_Get (sample_ops_env sample_finished_ops
            (sample_client (\<lambda>site. Inr (sample_child ''Cluster in healthy state''))))
     = Inr sample_finished_ops \<and>
   fst (OpsRequestReconciler_Reconcile
          (sample_ops_env sample_finished_ops
             (sample_client (\<lambda>site. Inr (sample_child ''Cluster in healthy state''))))) = [] \<and>
   written_phases (fst (OpsRequestReconciler_Reconcile
          (sample_ops_env (sample_ops ''Stop'' ''Pending'')
             (sample_client (\<lambda>site. Inr (sample_child ''Cluster in healthy state''))))))
     = [''Running'', ''Succeeded''] \<and>
   sorted (map phase_rank
     (st_Phase (o_Status (sample_ops ''Stop'' ''Pending''))
        # written_phases (fst (OpsRequestReconciler_Reconcile
          (sample_ops_env (sample_ops ''Stop'' ''Pending'')
             (sample_client (\<lambda>site. Inr (sample_child ''Cluster in healthy state''))))))))"
proof -
  let ?c = "sample_client (\<lambda>site. Inr (sample_child ''Cluster in healthy state''))"
  let ?e1 = "sample_ops_env sample_finished_ops ?c"
  let ?o2 = "sample_ops ''Stop'' ''Pending''"
  let ?e2 = "sample_ops_env ?o2 ?c"
  have g1: "r_Get ?e1 = Inr sample_finished_ops" by (simp add: sample_ops_env_def)
  have g2: "r_Get ?e2 = Inr ?o2" by (simp add: sample_ops_env_def)
  have ph: "st_Phase (o_Status sample_finished_ops) = OpsRequestPhaseSucceeded"
    by (simp add: sample_finished_ops_def sample_ops_def OpsRequestStatus_zero_def
          OpsRequestPhase_defs)
  have rep: "\<forall>t h c req calls st.
              r_GetProvider ?e2 t = Inr h \<and> GetStatus h c req = (calls, Inr st) \<longrightarrow>
              st_Phase st = OpsRequestPhaseRunning \<or> st_Phase st = OpsRequestPhaseSucceeded
              \<or> st_Phase st = OpsRequestPhaseFailed"
  proof (intro allI impI)
    fix t h c req calls st
    assume a: "r_GetProvider ?e2 t = Inr h \<and> GetStatus h c req = (calls, Inr st)"
    then have "CNPG_GetStatus ?c c req = (calls, Inr st)"
      by (auto simp add: sample_ops_env_def NewOperationsHandler_def)
    with CNPG_GetStatus_reports [of ?c c req]
    show "st_Phase st = OpsRequestPhaseRunning \<or> st_Phase st = OpsRequestPhaseSucceeded
              \<or> st_Phase st = OpsRequestPhaseFailed" by auto
  qed
  have t1: "fst (OpsRequestReconciler_Reconcile ?e1) = []
            \<or> fst (OpsRequestReconciler_Reconcile ?e1) = [OpsDelete sample_finished_ops]"
    using terminal_phase_is_final [OF g1] ph by blast
  have e1: "fst (OpsRequestReconciler_Reconcile ?e1) \<noteq> [OpsDelete sample_finished_ops]"
    by (simp add: OpsRequestReconciler_Reconcile_def sample_ops_env_def sample_finished_ops_def
          sample_ops_def OpsRequestStatus_zero_def OpsRequestPhase_defs time_Since_def
          time_Sub_def maxDuration_def minDuration_def ttl_Duration_def wrap64_def Second_def)
  have t2: "sorted (map phase_rank
     (st_Phase (o_Status ?o2) # written_phases (fst (OpsRequestReconciler_Reconcile ?e2))))"
    using terminal_phase_is_final [OF g2] rep by blast
  have e2: "written_phases (fst (OpsRequestReconciler_Reconcile ?e2)) = [''Running'', ''Succeeded'']"
    by (simp add: OpsRequestReconciler_Reconcile_def sample_ops_env_def
          sample_ops_def OpsRequestStatus_zero_def OpsRequestPhase_defs OpsRequestType_defs
          executeAndPoll_def executeOperation_def invoke_def NewOperationsHandler_def
          CNPG_Stop_def CNPG_GetStatus_def sample_client_def sample_cluster_def sample_child_def
          Let_def)
  from g1 t1 e1 t2 e2 show ?thesis by blast
qed

section \<open>Failure to fetch the status of an operation\<close>

text \<open>
  Claim C7, as the code has it. When, after a dispatch that returned no error, the
  delegate's status method returns an error, the pass ends with a requeue after five
  seconds and writes nothing after the dispatch: the only status write such a pass can
  contain is the one that moved an empty or Pending phase to Running before the dispatch.
  The dispatch itself writes no status. The status method of the reference delegate
  never returns an error: when its read of the child record fails, it reports phase
  Failed with the error text as message.
\<close>

theorem status_error_requeues:
  assumes get: "r_Get r = Inr ops"
      and live: "st_Phase (o_Status ops) \<noteq> OpsRequestPhaseSucceeded"
                "st_Phase (o_Status ops) \<noteq> OpsRequestPhaseFailed"
      and cl: "r_Get_cluster r (spec_ClusterRef (o_Spec ops)) (o_Namespace ops) = Inr cluster"
      and pr: "r_GetProvider r (EngineType (dc_Spec cluster)) = Inr h"
      and run: "running = ops\<lparr>o_Status := (o_Status ops)
                            \<lparr>st_Phase := OpsRequestPhaseRunning,
                             st_StartTime := Some (r_Now r)\<rparr>\<rparr>"
  shows "(st_Phase (o_Status ops) \<noteq> [] \<and> st_Phase (o_Status ops) \<noteq> OpsRequestPhasePending \<and>
          snd (executeOperation h cluster ops) = None \<and>
          GetStatus h cluster ops = (calls, Inl err) \<longrightarrow>
            OpsRequestReconciler_Reconcile r =
              (fst (executeOperation h cluster ops) @ InvokeGetStatus # map OpsChildCall calls,
               \<lparr>RequeueAfter = 5 * Second\<rparr>, None))
       \<and> ((st_Phase (o_Status ops) = [] \<or> st_Phase (o_Status ops) = OpsRequestPhasePending) \<and>
          r_Status_Update r running = None \<and>
          snd (executeOperation h cluster running) = None \<and>
          GetStatus h cluster running = (calls, Inl err) \<longrightarrow>
            OpsRequestReconciler_Reconcile r =
              (OpsStatusUpdate running # fst (executeOperation h cluster running)
                 @ InvokeGetStatus # map OpsChildCall calls,
               \<lparr>RequeueAfter = 5 * Second\<rparr>, None))
       \<and> written_phases (fst (executeOperation h cluster current)) = []
       \<and> (\<exists>reads st. CNPG_GetStatus c cluster' ops' = (reads, Inr st) \<and>
             (\<forall>e. client_Get c InGetStatus (dc_Name cluster') (dc_Namespace cluster') = Inl e \<longrightarrow>
                  st_Phase st = OpsRequestPhaseFailed \<and> st_Message st = Error e))"
proof (intro conjI impI)
  assume a: "st_Phase (o_Status ops) \<noteq> [] \<and> st_Phase (o_Status ops) \<noteq> OpsRequestPhasePending \<and>
          snd (executeOperation h cluster ops) = None \<and>
          GetStatus h cluster ops = (calls, Inl err)"
  obtain evs where ex: "executeOperation h cluster ops = (evs, None)"
    using a by (cases "executeOperation h cluster ops") auto
  show "OpsRequestReconciler_Reconcile r =
              (fst (executeOperation h cluster ops) @ InvokeGetStatus # map OpsChildCall calls,
               \<lparr>RequeueAfter = 5 * Second\<rparr>, None)"
    using get live cl pr a ex
    by (simp add: OpsRequestReconciler_Reconcile_def executeAndPoll_def)
next
  assume a: "(st_Phase (o_Status ops) = [] \<or> st_Phase (o_Status ops) = OpsRequestPhasePending) \<and>
          r_Status_Update r running = None \<and>
          snd (executeOperation h cluster running) = None \<and>
          GetStatus h cluster running = (calls, Inl err)"
  obtain evs where ex: "executeOperation h cluster running = (evs, None)"
    using a by (cases "executeOperation h cluster running") auto
  have poll: "executeAndPoll r h cluster running =
                (evs @ InvokeGetStatus # map OpsChildCall calls, \<lparr>RequeueAfter = 5 * Second\<rparr>, None)"
    using a ex by (simp add: executeAndPoll_def)
  have "OpsRequestReconciler_Reconcile r =
          (OpsStatusUpdate running # evs @ InvokeGetStatus # map OpsChildCall calls,
           \<lparr>RequeueAfter = 5 * Second\<rparr>, None)"
    using get live cl pr a poll unfolding run
    by (simp add: OpsRequestReconciler_Reconcile_def Let_def)
  then show "OpsRequestReconciler_Reconcile r =
              (OpsStatusUpdate running # fst (executeOperation h cluster running)
                 @ InvokeGetStatus # map OpsChildCall calls,
               \<lparr>RequeueAfter = 5 * Second\<rparr>, None)"
    using ex by simp
next
  show "written_phases (fst (executeOperation h cluster current)) = []"
    by (rule written_phases_executeOperation)
next
  show "\<exists>reads st. CNPG_GetStatus c cluster' ops' = (reads, Inr st) \<and>
             (\<forall>e. client_Get c InGetStatus (dc_Name cluster') (dc_Namespace cluster') = Inl e \<longrightarrow>
                  st_Phase st = OpsRequestPhaseFailed \<and> st_Message st = Error e)"
    by (simp add: CNPG_GetStatus_def Let_def split: sum.splits)
qed

theorem status_error_requeues_witness:
  "r_Get ((sample_ops_env (sample_ops ''Stop'' ''Pending'') (sample_client (reads_succeed [])))
            \<lparr>r_GetProvider :=
               \<lambda>engineType. Inr (status_method_fails (sample_client (reads_succeed [])))\<rparr>)
     = Inr (sample_ops ''Stop'' ''Pending'') \<and>
   snd (OpsRequestReconciler_Reconcile
     ((sample_ops_env (sample_ops ''Stop'' ''Pending'') (sample_client (reads_succeed [])))
            \<lparr>r_GetProvider :=
               \<lambda>engineType. Inr (status_method_fails (sample_client (reads_succeed [])))\<rparr>))
     = (\<lparr>RequeueAfter = 5000000000\<rparr>, None) \<and>
   written_phases (fst (OpsRequestReconciler_Reconcile
     ((sample_ops_env (sample_ops ''Stop'' ''Pending'') (sample_client (reads_succeed [])))
            \<lparr>r_GetProvider :=
               \<lambda>engineType. Inr (status_method_fails (sample_client (reads_succeed [])))\<rparr>)))
     = [''Running'']"
proof -
  let ?c = "sample_client (reads_succeed [])"
  let ?h = "status_method_fails ?c"
  let ?ops = "sample_ops ''Stop'' ''Pending''"
  let ?env = "(sample_ops_env ?ops ?c)\<lparr>r_GetProvider := \<lambda>engineType. Inr ?h\<rparr>"
  let ?running = "?ops\<lparr>o_Status := (o_Status ?ops)
                            \<lparr>st_Phase := OpsRequestPhaseRunning,
                             st_StartTime := Some (r_Now ?env)\<rparr>\<rparr>"
  have g: "r_Get ?env = Inr ?ops" by (simp add: sample_ops_env_def)
  have p1: "st_Phase (o_Status ?ops) \<noteq> OpsRequestPhaseSucceeded"
    by (simp add: sample_ops_def OpsRequestStatus_zero_def OpsRequestPhase_defs)
  have p2: "st_Phase (o_Status ?ops) \<noteq> OpsRequestPhaseFailed"
    by (simp add: sample_ops_def OpsRequestStatus_zero_def OpsRequestPhase_defs)
  have cl: "r_Get_cluster ?env (spec_ClusterRef (o_Spec ?ops)) (o_Namespace ?ops) = Inr sample_cluster"
    by (simp add: sample_ops_env_def)
  have pr: "r_GetProvider ?env (EngineType (dc_Spec sample_cluster)) = Inr ?h" by simp
  have pend: "st_Phase (o_Status ?ops) = [] \<or> st_Phase (o_Status ?ops) = OpsRequestPhasePending"
    by (simp add: sample_ops_def OpsRequestStatus_zero_def OpsRequestPhase_defs)
  have up: "r_Status_Update ?env ?running = None" by (simp add: sample_ops_env_def)
  have ex: "snd (executeOperation ?h sample_cluster ?running) = None"
    by (simp add: executeOperation_def invoke_def status_method_fails_def NewOperationsHandler_def
          CNPG_Stop_def sample_client_def reads_succeed_def sample_ops_def OpsRequestType_defs
          Let_def)
  have gs: "GetStatus ?h sample_cluster ?running = ([], Inl (Err ReasonTimeout ''context deadline exceeded''))"
    by (simp add: status_method_fails_def)
  from status_error_requeues [OF g p1 p2 cl pr refl, of "[]" "Err ReasonTimeout ''context deadline exceeded''"]
    pend up ex gs
  have "OpsRequestReconciler_Reconcile ?env =
              (OpsStatusUpdate ?running # fst (executeOperation ?h sample_cluster ?running)
                 @ InvokeGetStatus # map OpsChildCall [],
               \<lparr>RequeueAfter = 5 * Second\<rparr>, None)"
    by blast
  then have "snd (OpsRequestReconciler_Reconcile ?env) = (\<lparr>RequeueAfter = 5000000000\<rparr>, None)
     \<and> written_phases (fst (OpsRequestReconciler_Reconcile ?env)) = [''Running'']"
    by (simp add: Second_def written_phases_append written_phases_executeOperation
          OpsRequestPhase_defs)
  with g show ?thesis by blast
qed

text \<open>
  The claim as stated fails for the reference delegate. A Stop operation in phase Running
  is dispatched without error; the read of the child record made by the status method
  then times out. The pass does not requeue: it writes phase Failed, with the timeout as
  message, over the record's status.
\<close>

theorem status_fetch_failure_counterexample:
  "st_Phase (o_Status (sample_ops ''Stop'' ''Running'')) = ''Running'' \<and>
   snd (executeOperation (NewOperationsHandler (sample_client status_read_times_out))
          sample_cluster (sample_ops ''Stop'' ''Running'')) = None \<and>
   client_Get (sample_client status_read_times_out) InGetStatus ''pg'' ''default''
     = Inl (Err ReasonTimeout ''context deadline exceeded'') \<and>
   OpsRequestReconciler_Reconcile
     (sample_ops_env (sample_ops ''Stop'' ''Running'') (sample_client status_read_times_out))
     = (fst (executeOperation (NewOperationsHandler (sample_client status_read_times_out))
               sample_cluster (sample_ops ''Stop'' ''Running''))
          @ [InvokeGetStatus, OpsChildCall (ChildGet ''pg'' ''default''),
             OpsStatusUpdate
               ((sample_ops ''Stop'' ''Running'')
                  \<lparr>o_Status := OpsRequestStatus_zero
                     \<lparr>st_Phase := ''Failed'',
                      st_Message := ''context deadline exceeded''\<rparr>\<rparr>)],
        Result_empty, None)"
  by (simp add: OpsRequestReconciler_Reconcile_def executeAndPoll_def sample_ops_env_def
        executeOperation_def invoke_def NewOperationsHandler_def CNPG_Stop_def CNPG_GetStatus_def
        sample_client_def status_read_times_out_def sample_ops_def sample_cluster_def
        OpsRequestStatus_zero_def OpsRequestType_defs OpsRequestPhase_defs Let_def)

section \<open>The action log\<close>

text \<open>Dispatch writes no status; the writes of a pass come from three places only.\<close>

lemma no_write_in_child_calls: "OpsStatusUpdate w \<notin> set (map OpsChildCall calls)"
  by auto

lemma no_write_in_invoke: "OpsStatusUpdate w \<notin> set (fst (invoke m res))"
  by (auto simp add: invoke_def)

lemma no_write_in_executeOperation:
  "OpsStatusUpdate w \<notin> set (fst (executeOperation h cluster ops))"
  by (simp add: executeOperation_def Let_def no_write_in_invoke)

lemma writes_of_executeAndPoll:
  assumes "OpsStatusUpdate w \<in> set (fst (executeAndPoll r h cluster ops))"
  shows "st_ActionLog (o_Status w) = st_ActionLog (o_Status ops)
         \<or> (\<exists>calls. GetStatus h cluster ops = (calls, Inr (o_Status w)))"
proof (cases "executeOperation h cluster ops")
  case (Pair evs res)
  have evs: "OpsStatusUpdate w \<notin> set evs"
    using no_write_in_executeOperation [of w h cluster ops] Pair by simp
  show ?thesis
  proof (cases res)
    case (Some err)
    then show ?thesis using assms Pair evs
      by (auto simp add: executeAndPoll_def updateStatusFailed_def Let_def)
  next
    case None
    obtain calls st where g: "GetStatus h cluster ops = (calls, st)"
      by (cases "GetStatus h cluster ops")
    show ?thesis
    proof (cases st)
      case (Inl err)
      then show ?thesis using assms Pair None g evs
        by (auto simp add: executeAndPoll_def)
    next
      case (Inr status)
      then show ?thesis using assms Pair None g evs
        by (auto simp add: executeAndPoll_def Let_def split: option.splits if_splits)
    qed
  qed
qed

text \<open>
  Claim C9, as the code has it. Every status write of a pass either leaves the action log
  as the record had it (the move to Running and the move to Failed by the controller), or
  carries, as its whole status, the report of the delegate's status method. The report of
  the reference delegate does not depend on the status the record had before, and its
  action log holds at most one entry. So the log is not appended to: a poll replaces it.
\<close>

theorem action_log_replaced_by_poll:
  assumes get: "r_Get r = Inr ops"
      and wr: "OpsStatusUpdate w \<in> set (fst (OpsRequestReconciler_Reconcile r))"
  shows "(st_ActionLog (o_Status w) = st_ActionLog (o_Status ops)
          \<or> (\<exists>t h cluster current calls.
                r_GetProvider r t = Inr h \<and>
                GetStatus h cluster current = (calls, Inr (o_Status w))))
       \<and> (\<exists>reads st. CNPG_GetStatus c cluster' (ops'\<lparr>o_Status := previous\<rparr>) = (reads, Inr st) \<and>
             CNPG_GetStatus c cluster' ops' = (reads, Inr st) \<and>
             length (st_ActionLog st) \<le> 1)"
proof
  show "\<exists>reads st. CNPG_GetStatus c cluster' (ops'\<lparr>o_Status := previous\<rparr>) = (reads, Inr st) \<and>
             CNPG_GetStatus c cluster' ops' = (reads, Inr st) \<and>
             length (st_ActionLog st) \<le> 1"
    by (simp add: CNPG_GetStatus_def Let_def OpsRequestStatus_zero_def split: sum.splits)
next
  show "st_ActionLog (o_Status w) = st_ActionLog (o_Status ops)
          \<or> (\<exists>t h cluster current calls.
                r_GetProvider r t = Inr h \<and>
                GetStatus h cluster current = (calls, Inr (o_Status w)))"
  proof (cases "st_Phase (o_Status ops) = OpsRequestPhaseSucceeded
                \<or> st_Phase (o_Status ops) = OpsRequestPhaseFailed")
    case True
    from terminal_trace [OF get True] wr show ?thesis by auto
  next
    case False
    show ?thesis
    proof (cases "r_Get_cluster r (spec_ClusterRef (o_Spec ops)) (o_Namespace ops)")
      case (Inl err)
      then show ?thesis using get False wr
        by (auto simp add: OpsRequestReconciler_Reconcile_def updateStatusFailed_def Let_def)
    next
      case (Inr cluster)
      show ?thesis
      proof (cases "r_GetProvider r (EngineType (dc_Spec cluster))")
        case (Inl err)
        then show ?thesis using get False Inr wr
          by (auto simp add: OpsRequestReconciler_Reconcile_def updateStatusFailed_def Let_def)
      next
        case h: (Inr opsHandler)
        show ?thesis
        proof (cases "st_Phase (o_Status ops) = [] \<or> st_Phase (o_Status ops) = OpsRequestPhasePending")
          case pending: True
          let ?running = "ops\<lparr>o_Status := (o_Status ops)\<lparr>st_Phase := OpsRequestPhaseRunning,
                                                   st_StartTime := Some (r_Now r)\<rparr>\<rparr>"
          have "w = ?running
                \<or> OpsStatusUpdate w \<in> set (fst (executeAndPoll r opsHandler cluster ?running))"
            using get False Inr h pending wr
            by (auto simp add: OpsRequestReconciler_Reconcile_def Let_def
                  split: option.splits prod.splits)
          then show ?thesis
          proof
            assume "w = ?running"
            then show ?thesis by simp
          next
            assume "OpsStatusUpdate w \<in> set (fst (executeAndPoll r opsHandler cluster ?running))"
            from writes_of_executeAndPoll [OF this] h show ?thesis by auto
          qed
        next
          case running: False
          then have "OpsStatusUpdate w \<in> set (fst (executeAndPoll r opsHandler cluster ops))"
            using get False Inr h wr by (simp add: OpsRequestReconciler_Reconcile_def)
          from writes_of_executeAndPoll [OF this] h show ?thesis by auto
        qed
      qed
    qed
  qed
qed

theorem action_log_replaced_by_poll_witness:
  "r_Get (sample_ops_env sample_logged_ops (sample_client (reads_succeed ''Setting up primary'')))
     = Inr sample_logged_ops \<and>
   OpsStatusUpdate
     (sample_logged_ops
        \<lparr>o_Status := OpsRequestStatus_zero
           \<lparr>st_Phase := ''Running'',
            st_ActionLog :=
              [\<lparr>al_Timestamp = 2000, al_Action = ''Stop'', al_Status = ''Running'',
                al_Message = ''Setting up primary''\<rparr>]\<rparr>\<rparr>)
     \<in> set (fst (OpsRequestReconciler_Reconcile
                (sample_ops_env sample_logged_ops
                   (sample_client (reads_succeed ''Setting up primary''))))) \<and>
   (\<exists>t h cluster current calls.
      r_GetProvider
        (sample_ops_env sample_logged_ops (sample_client (reads_succeed ''Setting up primary'')))
        t = Inr h \<and>
      GetStatus h cluster current
        = (calls, Inr (OpsRequestStatus_zero
             \<lparr>st_Phase := ''Running'',
              st_ActionLog :=
                [\<lparr>al_Timestamp = 2000, al_Action = ''Stop'', al_Status = ''Running'',
                  al_Message = ''Setting up primary''\<rparr>]\<rparr>)))"
proof -
  let ?c = "sample_client (reads_succeed ''Setting up primary'')"
  let ?env = "sample_ops_env sample_logged_ops ?c"
  let ?w = "sample_logged_ops
        \<lparr>o_Status := OpsRequestStatus_zero
           \<lparr>st_Phase := ''Running'',
            st_ActionLog :=
              [\<lparr>al_Timestamp = 2000, al_Action = ''Stop'', al_Status = ''Running'',
                al_Message = ''Setting up primary''\<rparr>]\<rparr>\<rparr>"
  have g: "r_Get ?env = Inr sample_logged_ops" by (simp add: sample_ops_env_def)
  have wr: "OpsStatusUpdate ?w \<in> set (fst (OpsRequestReconciler_Reconcile ?env))"
    by (simp add: OpsRequestReconciler_Reconcile_def executeAndPoll_def sample_ops_env_def
        executeOperation_def invoke_def NewOperationsHandler_def CNPG_Stop_def CNPG_GetStatus_def
        sample_client_def reads_succeed_def sample_logged_ops_def sample_ops_def
        sample_cluster_def sample_child_def
        OpsRequestStatus_zero_def OpsRequestType_defs OpsRequestPhase_defs Let_def)
  have differs: "st_ActionLog (o_Status ?w) \<noteq> st_ActionLog (o_Status sample_logged_ops)"
    by (simp add: sample_logged_ops_def sample_ops_def OpsRequestStatus_zero_def)
  from action_log_replaced_by_poll [OF g wr] differs
  have "\<exists>t h cluster current calls.
                r_GetProvider ?env t = Inr h \<and>
                GetStatus h cluster current = (calls, Inr (o_Status ?w))" by blast
  then have "\<exists>t h cluster current calls.
                r_GetProvider ?env t = Inr h \<and>
                GetStatus h cluster current
                  = (calls, Inr (OpsRequestStatus_zero
             \<lparr>st_Phase := ''Running'',
              st_ActionLog :=
                [\<lparr>al_Timestamp = 2000, al_Action = ''Stop'', al_Status = ''Running'',
                  al_Message = ''Setting up primary''\<rparr>]\<rparr>))" by simp
  with g wr show ?thesis by blast
qed

text \<open>
  The claim as stated fails. A running Stop operation holds one log entry, written at
  instant 1500. After a pass at instant 2000 over it the status written last holds one
  entry again, the new one: the log written does not begin with the entry recorded before.
\<close>

theorem action_log_counterexample:
  "st_ActionLog (o_Status sample_logged_ops)
     = [\<lparr>al_Timestamp = 1500, al_Action = ''Stop'', al_Status = ''Running'',
         al_Message = ''Setting up primary''\<rparr>] \<and>
   last (fst (OpsRequestReconciler_Reconcile
                (sample_ops_env sample_logged_ops
                   (sample_client (reads_succeed ''Setting up primary'')))))
     = OpsStatusUpdate
         (sample_logged_ops
            \<lparr>o_Status := OpsRequestStatus_zero
               \<lparr>st_Phase := ''Running'',
                st_ActionLog :=
                  [\<lparr>al_Timestamp = 2000, al_Action = ''Stop'', al_Status = ''Running'',
                    al_Message = ''Setting up primary''\<rparr>]\<rparr>\<rparr>) \<and>
   take 1 [\<lparr>al_Timestamp = 2000, al_Action = ''Stop'', al_Status = ''Running'',
            al_Message = ''Setting up primary''\<rparr>]
     \<noteq> [\<lparr>al_Timestamp = 1500, al_Action = ''Stop'', al_Status = ''Running'',
          al_Message = ''Setting up primary''\<rparr>]"
  by (simp add: OpsRequestReconciler_Reconcile_def executeAndPoll_def sample_ops_env_def
        executeOperation_def invoke_def NewOperationsHandler_def CNPG_Stop_def CNPG_GetStatus_def
        sample_client_def reads_succeed_def sample_logged_ops_def sample_ops_def
        sample_cluster_def sample_child_def
        OpsRequestStatus_zero_def OpsRequestType_defs OpsRequestPhase_defs Let_def)

section \<open>Dispatch\<close>

text \<open>
  The dispatcher tests the declared type against the fourteen names in turn; the reference
  delegate's methods test their payload before anything else.
\<close>

lemma dispatch_by_type:
  "(spec_Type (o_Spec ops) = OpsRequestTypeStart \<longrightarrow>
      executeOperation h cluster ops =
        (Invoke MStart # map OpsChildCall (fst (Start h cluster ops)), snd (Start h cluster ops)))
 \<and> (spec_Type (o_Spec ops) = OpsRequestTypeStop \<longrightarrow>
      executeOperation h cluster ops =
        (Invoke MStop # map OpsChildCall (fst (Stop h cluster ops)), snd (Stop h cluster ops)))
 \<and> (spec_Type (o_Spec ops) = OpsRequestTypeRestart \<longrightarrow>
      executeOperation h cluster ops =
        (Invoke MRestart # map OpsChildCall (fst (Restart h cluster ops)),
         snd (Restart h cluster ops)))
 \<and> (spec_Type (o_Spec ops) = OpsRequestTypeSwitchover \<longrightarrow>
      executeOperation h cluster ops =
        (Invoke MSwitchover # map OpsChildCall (fst (Switchover h cluster ops)),
         snd (Switchover h cluster ops)))
 \<and> (spec_Type (o_Spec ops) = OpsRequestTypeHorizontalScaling \<longrightarrow>
      executeOperation h cluster ops =
        (Invoke MHorizontalScaling # map OpsChildCall (fst (HorizontalScaling h cluster ops)),
         snd (HorizontalScaling h cluster ops)))
 \<and> (spec_Type (o_Spec ops) = OpsRequestTypeVerticalScaling \<longrightarrow>
      executeOperation h cluster ops =
        (Invoke MVerticalScaling # map OpsChildCall (fst (VerticalScaling h cluster ops)),
         snd (VerticalScaling h cluster ops)))
 \<and> (spec_Type (o_Spec ops) = OpsRequestTypeVolumeExpansion \<longrightarrow>
      executeOperation h cluster ops =
        (Invoke MVolumeExpansion # map OpsChildCall (fst (VolumeExpansion h cluster ops)),
         snd (VolumeExpansion h cluster ops)))
 \<and> (spec_Type (o_Spec ops) = OpsRequestTypeReconfiguring \<longrightarrow>
      executeOperation h cluster ops =
        (Invoke MReconfigure # map OpsChildCall (fst (Reconfigure h cluster ops)),
         snd (Reconfigure h cluster ops)))
 \<and> (spec_Type (o_Spec ops) = OpsRequestTypeUpgrade \<longrightarrow>
      executeOperation h cluster ops =
        (Invoke MUpgrade # map OpsChildCall (fst (Upgrade h cluster ops)),
         snd (Upgrade h cluster ops)))
 \<and> (spec_Type (o_Spec ops) = OpsRequestTypeBackup \<longrightarrow>
      executeOperation h cluster ops =
        (Invoke MBackup # map OpsChildCall (fst (Backup h cluster ops)),
         snd (Backup h cluster ops)))
 \<and> (spec_Type (o_Spec ops) = OpsRequestTypeRestore \<longrightarrow>
      executeOperation h cluster ops =
        (Invoke MRestore # map OpsChildCall (fst (Restore h cluster ops)),
         snd (Restore h cluster ops)))
 \<and> (spec_Type (o_Spec ops) = OpsRequestTypeExpose \<longrightarrow>
      executeOperation h cluster ops =
        (Invoke MExpose # map OpsChildCall (fst (Expose h cluster ops)),
         snd (Expose h cluster ops)))
 \<and> (spec_Type (o_Spec ops) = OpsRequestTypeRebuildInstance \<longrightarrow>
      executeOperation h cluster ops =
        (Invoke MRebuildInstance # map OpsChildCall (fst (RebuildInstance h cluster ops)),
         snd (RebuildInstance h cluster ops)))
 \<and> (spec_Type (o_Spec ops) = OpsRequestTypeCustom \<longrightarrow>
      executeOperation h cluster ops =
        (Invoke MCustom # map OpsChildCall (fst (Custom h cluster ops)),
         snd (Custom h cluster ops)))
 \<and> (spec_Type (o_Spec ops) \<notin>
       {OpsRequestTypeStart, OpsRequestTypeStop, OpsRequestTypeRestart,
        OpsRequestTypeSwitchover, OpsRequestTypeHorizontalScaling,
        OpsRequestTypeVerticalScaling, OpsRequestTypeVolumeExpansion,
        OpsRequestTypeReconfiguring, OpsRequestTypeUpgrade, OpsRequestTypeBackup,
        OpsRequestTypeRestore, OpsRequestTypeExpose, OpsRequestTypeRebuildInstance,
        OpsRequestTypeCustom} \<longrightarrow>
      executeOperation h cluster ops =
        ([], Some (Errorf (''unsupported operation type: '' @ spec_Type (o_Spec ops)))) \<and>
      executeAndPoll r h cluster ops =
        ([OpsStatusUpdate
            (ops\<lparr>o_Status := (o_Status ops)
               \<lparr>st_Phase := OpsRequestPhaseFailed,
                st_Message := ''unsupported operation type: '' @ spec_Type (o_Spec ops),
                st_CompletionTime := Some (r_Now r)\<rparr>\<rparr>)],
         Result_empty,
         r_Status_Update r
            (ops\<lparr>o_Status := (o_Status ops)
               \<lparr>st_Phase := OpsRequestPhaseFailed,
                st_Message := ''unsupported operation type: '' @ spec_Type (o_Spec ops),
                st_CompletionTime := Some (r_Now r)\<rparr>\<rparr>)))"
  apply (intro conjI impI)
                apply (simp_all add: executeOperation_def OpsRequestType_defs invoke_def Let_def)
  apply (simp add: executeAndPoll_def executeOperation_def OpsRequestType_defs
           updateStatusFailed_def Errorf_def Let_def)
  done

lemma reference_payload_checks:
  "(spec_Type (o_Spec ops) = OpsRequestTypeSwitchover \<and> spec_Switchover (o_Spec ops) = None \<longrightarrow>
      executeOperation (NewOperationsHandler c) cluster ops =
        ([Invoke MSwitchover], Some (Errorf ''switchover spec is required'')))
 \<and> (spec_Type (o_Spec ops) = OpsRequestTypeHorizontalScaling
      \<and> spec_HorizontalScaling (o_Spec ops) = None \<longrightarrow>
      executeOperation (NewOperationsHandler c) cluster ops =
        ([Invoke MHorizontalScaling], Some (Errorf ''horizontalScaling spec is required'')))
 \<and> (spec_Type (o_Spec ops) = OpsRequestTypeVerticalScaling
      \<and> spec_VerticalScaling (o_Spec ops) = None \<longrightarrow>
      executeOperation (NewOperationsHandler c) cluster ops =
        ([Invoke MVerticalScaling], Some (Errorf ''verticalScaling spec is required'')))
 \<and> (spec_Type (o_Spec ops) = OpsRequestTypeVolumeExpansion
      \<and> spec_VolumeExpansion (o_Spec ops) = None \<longrightarrow>
      executeOperation (NewOperationsHandler c) cluster ops =
        ([Invoke MVolumeExpansion], Some (Errorf ''volumeExpansion spec is required'')))
 \<and> (spec_Type (o_Spec ops) = OpsRequestTypeReconfiguring
      \<and> spec_Reconfiguring (o_Spec ops) = None \<longrightarrow>
      executeOperation (NewOperationsHandler c) cluster ops =
        ([Invoke MReconfigure], Some (Errorf ''reconfiguring spec is required'')))
 \<and> (spec_Type (o_Spec ops) = OpsRequestTypeUpgrade \<and> spec_Upgrade (o_Spec ops) = None \<longrightarrow>
      executeOperation (NewOperationsHandler c) cluster ops =
        ([Invoke MUpgrade], Some (Errorf ''upgrade spec is required'')))
 \<and> (spec_Type (o_Spec ops) = OpsRequestTypeRestore \<and> spec_Restore (o_Spec ops) = None \<longrightarrow>
      executeOperation (NewOperationsHandler c) cluster ops =
        ([Invoke MRestore], Some (Errorf ''restore spec is required'')))
 \<and> (spec_Type (o_Spec ops) = OpsRequestTypeRebuildInstance
      \<and> spec_RebuildInstance (o_Spec ops) = None \<longrightarrow>
      executeOperation (NewOperationsHandler c) cluster ops =
        ([Invoke MRebuildInstance], Some (Errorf ''rebuildInstance spec is required'')))
 \<and> (spec_Type (o_Spec ops) = OpsRequestTypeCustom \<and> spec_Custom (o_Spec ops) = None \<longrightarrow>
      executeOperation (NewOperationsHandler c) cluster ops =
        ([Invoke MCustom], Some (Errorf ''custom spec is required'')))"
  apply (intro conjI impI)
          apply (simp_all add: executeOperation_def OpsRequestType_defs invoke_def Let_def
                   NewOperationsHandler_def CNPG_Switchover_def CNPG_HorizontalScaling_def
                   CNPG_VerticalScaling_def CNPG_VolumeExpansion_def CNPG_Reconfigure_def
                   CNPG_Upgrade_def CNPG_Restore_def CNPG_RebuildInstance_def CNPG_Custom_def)
  done

text \<open>
  Claim C3, as the code has it. For each of the fourteen operation types the dispatcher
  invokes the one delegate method of that type and no other: the trace of the dispatch is
  that invocation followed by the calls the method makes on the child system, and its
  result is the method's. For any other type no method is invoked; the dispatch returns
  the error \<open>unsupported operation type\<close> and the controller writes phase Failed. When the
  payload that a type requires is absent, the method of that type is still invoked; in
  the reference delegate it returns its \<open>spec is required\<close> error before any call on the
  child system, so the child record is neither read nor changed.
\<close>

theorem dispatch_matches_type:
  "((spec_Type (o_Spec ops) = OpsRequestTypeStart \<longrightarrow>
      executeOperation h cluster ops =
        (Invoke MStart # map OpsChildCall (fst (Start h cluster ops)), snd (Start h cluster ops)))
 \<and> (spec_Type (o_Spec ops) = OpsRequestTypeStop \<longrightarrow>
      executeOperation h cluster ops =
        (Invoke MStop # map OpsChildCall (fst (Stop h cluster ops)), snd (Stop h cluster ops)))
 \<and> (spec_Type (o_Spec ops) = OpsRequestTypeRestart \<longrightarrow>
      executeOperation h cluster ops =
        (Invoke MRestart # map OpsChildCall (fst (Restart h cluster ops)),
         snd (Restart h cluster ops)))
 \<and> (spec_Type (o_Spec ops) = OpsRequestTypeSwitchover \<longrightarrow>
      executeOperation h cluster ops =
        (Invoke MSwitchover # map OpsChildCall (fst (Switchover h cluster ops)),
         snd (Switchover h cluster ops)))
 \<and> (spec_Type (o_Spec ops) = OpsRequestTypeHorizontalScaling \<longrightarrow>
      executeOperation h cluster ops =
        (Invoke MHorizontalScaling # map OpsChildCall (fst (HorizontalScaling h cluster ops)),
         snd (HorizontalScaling h cluster ops)))
 \<and> (spec_Type (o_Spec ops) = OpsRequestTypeVerticalScaling \<longrightarrow>
      executeOperation h cluster ops =
        (Invoke MVerticalScaling # map OpsChildCall (fst (VerticalScaling h cluster ops)),
         snd (VerticalScaling h cluster ops)))
 \<and> (spec_Type (o_Spec ops) = OpsRequestTypeVolumeExpansion \<longrightarrow>
      executeOperation h cluster ops =
        (Invoke MVolumeExpansion # map OpsChildCall (fst (VolumeExpansion h cluster ops)),
         snd (VolumeExpansion h cluster ops)))
 \<and> (spec_Type (o_Spec ops) = OpsRequestTypeReconfiguring \<longrightarrow>
      executeOperation h cluster ops =
        (Invoke MReconfigure # map OpsChildCall (fst (Reconfigure h cluster ops)),
         snd (Reconfigure h cluster ops)))
 \<and> (spec_Type (o_Spec ops) = OpsRequestTypeUpgrade \<longrightarrow>
      executeOperation h cluster ops =
        (Invoke MUpgrade # map OpsChildCall (fst (Upgrade h cluster ops)),
         snd (Upgrade h cluster ops)))
 \<and> (spec_Type (o_Spec ops) = OpsRequestTypeBackup \<longrightarrow>
      executeOperation h cluster ops =
        (Invoke MBackup # map OpsChildCall (fst (Backup h cluster ops)),
         snd (Backup h cluster ops)))
 \<and> (spec_Type (o_Spec ops) = OpsRequestTypeRestore \<longrightarrow>
      executeOperation h cluster ops =
        (Invoke MRestore # map OpsChildCall (fst (Restore h cluster ops)),
         snd (Restore h cluster ops)))
 \<and> (spec_Type (o_Spec ops) = OpsRequestTypeExpose \<longrightarrow>
      executeOperation h cluster ops =
        (Invoke MExpose # map OpsChildCall (fst (Expose h cluster ops)),
         snd (Expose h cluster ops)))
 \<and> (spec_Type (o_Spec ops) = OpsRequestTypeRebuildInstance \<longrightarrow>
      executeOperation h cluster ops =
        (Invoke MRebuildInstance # map OpsChildCall (fst (RebuildInstance h cluster ops)),
         snd (RebuildInstance h cluster ops)))
 \<and> (spec_Type (o_Spec ops) = OpsRequestTypeCustom \<longrightarrow>
      executeOperation h cluster ops =
        (Invoke MCustom # map OpsChildCall (fst (Custom h cluster ops)),
         snd (Custom h cluster ops)))
 \<and> (spec_Type (o_Spec ops) \<notin>
       {OpsRequestTypeStart, OpsRequestTypeStop, OpsRequestTypeRestart,
        OpsRequestTypeSwitchover, OpsRequestTypeHorizontalScaling,
        OpsRequestTypeVerticalScaling, OpsRequestTypeVolumeExpansion,
        OpsRequestTypeReconfiguring, OpsRequestTypeUpgrade, OpsRequestTypeBackup,
        OpsRequestTypeRestore, OpsRequestTypeExpose, OpsRequestTypeRebuildInstance,
        OpsRequestTypeCustom} \<longrightarrow>
      executeOperation h cluster ops =
        ([], Some (Errorf (''unsupported operation type: '' @ spec_Type (o_Spec ops)))) \<and>
      executeAndPoll r h cluster ops =
        ([OpsStatusUpdate
            (ops\<lparr>o_Status := (o_Status ops)
               \<lparr>st_Phase := OpsRequestPhaseFailed,
                st_Message := ''unsupported operation type: '' @ spec_Type (o_Spec ops),
                st_CompletionTime := Some (r_Now r)\<rparr>\<rparr>)],
         Result_empty,
         r_Status_Update r
            (ops\<lparr>o_Status := (o_Status ops)
               \<lparr>st_Phase := OpsRequestPhaseFailed,
                st_Message := ''unsupported operation type: '' @ spec_Type (o_Spec ops),
                st_CompletionTime := Some (r_Now r)\<rparr>\<rparr>))))
 \<and> ((spec_Type (o_Spec ops) = OpsRequestTypeSwitchover \<and> spec_Switchover (o_Spec ops) = None \<longrightarrow>
      executeOperation (NewOperationsHandler c) cluster ops =
        ([Invoke MSwitchover], Some (Errorf ''switchover spec is required'')))
 \<and> (spec_Type (o_Spec ops) = OpsRequestTypeHorizontalScaling
      \<and> spec_HorizontalScaling (o_Spec ops) = None \<longrightarrow>
      executeOperation (NewOperationsHandler c) cluster ops =
        ([Invoke MHorizontalScaling], Some (Errorf ''horizontalScaling spec is required'')))
 \<and> (spec_Type (o_Spec ops) = OpsRequestTypeVerticalScaling
      \<and> spec_VerticalScaling (o_Spec ops) = None \<longrightarrow>
      executeOperation (NewOperationsHandler c) cluster ops =
        ([Invoke MVerticalScaling], Some (Errorf ''verticalScaling spec is required'')))
 \<and> (spec_Type (o_Spec ops) = OpsRequestTypeVolumeExpansion
      \<and> spec_VolumeExpansion (o_Spec ops) = None \<longrightarrow>
      executeOperation (NewOperationsHandler c) cluster ops =
        ([Invoke MVolumeExpansion], Some (Errorf ''volumeExpansion spec is required'')))
 \<and> (spec_Type (o_Spec ops) = OpsRequestTypeReconfiguring
      \<and> spec_Reconfiguring (o_Spec ops) = None \<longrightarrow>
      executeOperation (NewOperationsHandler c) cluster ops =
        ([Invoke MReconfigure], Some (Errorf ''reconfiguring spec is required'')))
 \<and> (spec_Type (o_Spec ops) = OpsRequestTypeUpgrade \<and> spec_Upgrade (o_Spec ops) = None \<longrightarrow>
      executeOperation (NewOperationsHandler c) cluster ops =
        ([Invoke MUpgrade], Some (Errorf ''upgrade spec is required'')))
 \<and> (spec_Type (o_Spec ops) = OpsRequestTypeRestore \<and> spec_Restore (o_Spec ops) = None \<longrightarrow>
      executeOperation (NewOperationsHandler c) cluster ops =
        ([Invoke MRestore], Some (Errorf ''restore spec is required'')))
 \<and> (spec_Type (o_Spec ops) = OpsRequestTypeRebuildInstance
      \<and> spec_RebuildInstance (o_Spec ops) = None \<longrightarrow>
      executeOperation (NewOperationsHandler c) cluster ops =
        ([Invoke MRebuildInstance], Some (Errorf ''rebuildInstance spec is required'')))
 \<and> (spec_Type (o_Spec ops) = OpsRequestTypeCustom \<and> spec_Custom (o_Spec ops) = None \<longrightarrow>
      executeOperation (NewOperationsHandler c) cluster ops =
        ([Invoke MCustom], Some (Errorf ''custom spec is required''))))"
  by (rule conjI [OF dispatch_by_type reference_payload_checks])

theorem dispatch_matches_type_witness:
  "executeOperation (NewOperationsHandler (sample_client (reads_succeed [])))
     sample_cluster (sample_ops ''Stop'' ''Running'')
     = (Invoke MStop
          # map OpsChildCall
              (fst (CNPG_Stop (sample_client (reads_succeed [])) sample_cluster
                      (sample_ops ''Stop'' ''Running''))),
        None) \<and>
   executeOperation (NewOperationsHandler (sample_client (reads_succeed [])))
     sample_cluster (sample_ops ''Resize'' ''Running'')
     = ([], Some (Err ReasonNone ''unsupported operation type: Resize'')) \<and>
   executeOperation (NewOperationsHandler (sample_client (reads_succeed [])))
     sample_cluster (sample_ops ''Upgrade'' ''Running'')
     = ([Invoke MUpgrade], Some (Err ReasonNone ''upgrade spec is required''))"
proof -
  let ?c = "sample_client (reads_succeed [])"
  let ?h = "NewOperationsHandler ?c"
  have t1: "spec_Type (o_Spec (sample_ops ''Stop'' ''Running'')) = OpsRequestTypeStop"
    by (simp add: sample_ops_def OpsRequestType_defs)
  have t2: "spec_Type (o_Spec (sample_ops ''Resize'' ''Running'')) \<notin>
       {OpsRequestTypeStart, OpsRequestTypeStop, OpsRequestTypeRestart,
        OpsRequestTypeSwitchover, OpsRequestTypeHorizontalScaling,
        OpsRequestTypeVerticalScaling, OpsRequestTypeVolumeExpansion,
        OpsRequestTypeReconfiguring, OpsRequestTypeUpgrade, OpsRequestTypeBackup,
        OpsRequestTypeRestore, OpsRequestTypeExpose, OpsRequestTypeRebuildInstance,
        OpsRequestTypeCustom}"
    by (simp add: sample_ops_def OpsRequestType_defs)
  have t3: "spec_Type (o_Spec (sample_ops ''Upgrade'' ''Running'')) = OpsRequestTypeUpgrade
            \<and> spec_Upgrade (o_Spec (sample_ops ''Upgrade'' ''Running'')) = None"
    by (simp add: sample_ops_def OpsRequestType_defs)
  note d = dispatch_matches_type [where h = ?h and cluster = sample_cluster and c = ?c]
  have r1: "executeOperation ?h sample_cluster (sample_ops ''Stop'' ''Running'')
     = (Invoke MStop # map OpsChildCall (fst (Stop ?h sample_cluster (sample_ops ''Stop'' ''Running''))),
        snd (Stop ?h sample_cluster (sample_ops ''Stop'' ''Running'')))"
    by (rule d [THEN conjunct1, THEN conjunct2, THEN conjunct1, THEN mp, OF t1])
  have r2: "executeOperation ?h sample_cluster (sample_ops ''Resize'' ''Running'')
     = ([], Some (Errorf (''unsupported operation type: ''
                            @ spec_Type (o_Spec (sample_ops ''Resize'' ''Running'')))))"
    by (rule d [THEN conjunct1, THEN conjunct2, THEN conjunct2, THEN conjunct2, THEN conjunct2, THEN conjunct2, THEN conjunct2, THEN conjunct2, THEN conjunct2, THEN conjunct2, THEN conjunct2, THEN conjunct2, THEN conjunct2, THEN conjunct2, THEN conjunct2, THEN mp, OF t2, THEN conjunct1])
  have r3: "executeOperation (NewOperationsHandler ?c) sample_cluster (sample_ops ''Upgrade'' ''Running'')
     = ([Invoke MUpgrade], Some (Errorf ''upgrade spec is required''))"
    by (rule d [THEN conjunct2, THEN conjunct2, THEN conjunct2, THEN conjunct2, THEN conjunct2, THEN conjunct2, THEN conjunct1, THEN mp, OF t3])
  have s1: "Stop ?h = CNPG_Stop ?c" by (simp add: NewOperationsHandler_def)
  have s2: "snd (CNPG_Stop ?c sample_cluster (sample_ops ''Stop'' ''Running'')) = None"
    by (simp add: CNPG_Stop_def sample_client_def reads_succeed_def Let_def)
  from r1 r2 r3 s1 s2 show ?thesis
    by (simp add: Errorf_def sample_ops_def)
qed

text \<open>
  The claim as stated, that an absent payload means no delegate call, fails: for a
  Switchover request without its payload the dispatcher does invoke the delegate's
  Switchover method, and it is that method which returns the error.
\<close>

theorem payload_counterexample:
  "spec_Type (o_Spec (sample_ops ''Switchover'' ''Running'')) = OpsRequestTypeSwitchover \<and>
   spec_Switchover (o_Spec (sample_ops ''Switchover'' ''Running'')) = None \<and>
   executeOperation (NewOperationsHandler (sample_client (reads_succeed [])))
     sample_cluster (sample_ops ''Switchover'' ''Running'')
     = ([Invoke MSwitchover], Some (Err ReasonNone ''switchover spec is required''))"
  by (simp add: executeOperation_def OpsRequestType_defs invoke_def Let_def sample_ops_def
        NewOperationsHandler_def CNPG_Switchover_def Errorf_def)

section \<open>Deletion of a cluster\<close>






section \<open>The status of a cluster is replaced as a whole\<close>

text \<open>
  A pass that returns no error from \<^verbatim>\<open>buildAndApply\<close> ends with the status write, and the
  status mapper of the reference delegate never reads the status the record had.
\<close>

lemma updateStatus_success:
  assumes "snd (updateStatus r cluster prov) = None"
  shows "\<exists>calls status.
           Status prov cluster = (calls, Inr status) \<and>
           fst (updateStatus r cluster prov) =
             CallStatus # map ChildCall calls @ [StatusUpdate (cluster\<lparr>dc_Status := status\<rparr>)] \<and>
           cr_Status_Update r (cluster\<lparr>dc_Status := status\<rparr>) = None"
  using assms
  by (auto simp add: updateStatus_def Let_def split: sum.splits prod.splits)

lemma buildAndApply_success:
  fixes r :: "('b, 'e) cluster_env"
  assumes "snd (snd (buildAndApply r cluster prov)) = None"
  shows "\<exists>pre calls status.
           Status prov cluster = (calls, Inr status) \<and>
           fst (buildAndApply r cluster prov) = pre @ [StatusUpdate (cluster\<lparr>dc_Status := status\<rparr>)] \<and>
           cr_Status_Update r (cluster\<lparr>dc_Status := status\<rparr>) = None \<and>
           snd (buildAndApply r cluster prov) = (\<lparr>RequeueAfter = 30 * Second\<rparr>, None)"
proof (cases "GetApplier prov cluster")
  case (Inl err)
  with assms show ?thesis by (simp add: buildAndApply_def)
next
  case (Inr applier)
  obtain steps built where
    at: "(applyTransformations applier :: ('b, 'e) cluster_event list \<times> (error + 'b Applier))
           = (steps, built)"
    by (cases "applyTransformations applier :: ('b, 'e) cluster_event list \<times> (error + 'b Applier)")
  show ?thesis
  proof (cases built)
    case (Inl err)
    with assms Inr at show ?thesis by (simp add: buildAndApply_def)
  next
    case b: (Inr finished)
    obtain writes werr where cu: "createOrUpdateChildCluster r (GetResult finished) = (writes, werr)"
      by (cases "createOrUpdateChildCluster r (GetResult finished)")
    show ?thesis
    proof (cases werr)
      case (Some err)
      with assms Inr at b cu show ?thesis by (simp add: buildAndApply_def)
    next
      case None
      obtain evs serr where us: "updateStatus r cluster prov = (evs, serr)"
        by (cases "updateStatus r cluster prov")
      show ?thesis
      proof (cases serr)
        case (Some err)
        with assms Inr at b cu None us show ?thesis by (simp add: buildAndApply_def)
      next
        case n: None
        with us have "snd (updateStatus r cluster prov) = None" by simp
        from updateStatus_success [OF this] us obtain calls status where
          s: "Status prov cluster = (calls, Inr status)" and
          e: "evs = CallStatus # map ChildCall calls @ [StatusUpdate (cluster\<lparr>dc_Status := status\<rparr>)]" and
          u: "cr_Status_Update r (cluster\<lparr>dc_Status := status\<rparr>) = None"
          by auto
        have "fst (buildAndApply r cluster prov) =
                (steps @ writes @ CallStatus # map ChildCall calls)
                  @ [StatusUpdate (cluster\<lparr>dc_Status := status\<rparr>)]"
          using Inr at b cu None us n e by (simp add: buildAndApply_def)
        moreover have "snd (buildAndApply r cluster prov) = (\<lparr>RequeueAfter = 30 * Second\<rparr>, None)"
          using Inr at b cu None us n by (simp add: buildAndApply_def)
        ultimately show ?thesis using s u by blast
      qed
    qed
  qed
qed

lemma blocks_ignore_previous:
  "map_database (cluster\<lparr>dc_Status := previous\<rparr>) child s = map_database cluster child s"
  "map_backup (cluster\<lparr>dc_Status := previous\<rparr>) child s = map_backup cluster child s"
  "map_monitoring (cluster\<lparr>dc_Status := previous\<rparr>) s = map_monitoring cluster s"
  "map_proxy (cluster\<lparr>dc_Status := previous\<rparr>) s = map_proxy cluster s"
  by (simp_all add: map_database_def map_backup_def map_monitoring_def map_proxy_def
        split: option.splits)

lemma CNPGProvider_Status_ignores_previous:
  "CNPGProvider_Status p (cluster\<lparr>dc_Status := previous\<rparr>) = CNPGProvider_Status p cluster"
  by (simp add: CNPGProvider_Status_def blocks_ignore_previous Let_def split: sum.splits)

text \<open>
  Claim C4. After a pass of the Cluster Controller that runs to its end without error (a
  record not marked for deletion, the pre-check hook asking for no delay), the last thing
  written is the record with its status set to exactly the status record the delegate's
  status mapper returned, and that write succeeded: what the mapper sets is there, what it
  leaves unset is the zero value, and nothing of the former status remains. The mapper of
  the reference delegate yields the same status whatever status the record held before.
\<close>

theorem status_replaced_wholesale:
  assumes get: "cr_Get r = Inr cluster"
      and prov: "cr_GetProvider r (EngineType (dc_Spec cluster)) = Inr prov"
      and hook: "PreReconcileHook prov cluster = (hook_calls, Inr n)" "n \<le> 0"
      and live: "IsZero (dc_DeletionTimestamp cluster)"
      and ok: "snd (snd (DatabaseClusterReconciler_Reconcile r)) = None"
  shows "(\<exists>current calls status.
            (current = cluster
             \<or> current = cluster\<lparr>dc_Finalizers := dc_Finalizers cluster @ [''dbaas.io/finalizer'']\<rparr>) \<and>
            Status prov current = (calls, Inr status) \<and>
            last (fst (DatabaseClusterReconciler_Reconcile r))
              = StatusUpdate (current\<lparr>dc_Status := status\<rparr>) \<and>
            dc_Status (current\<lparr>dc_Status := status\<rparr>) = status \<and>
            cr_Status_Update r (current\<lparr>dc_Status := status\<rparr>) = None \<and>
            snd (DatabaseClusterReconciler_Reconcile r) = (\<lparr>RequeueAfter = 30 * Second\<rparr>, None))
       \<and> CNPGProvider_Status p (cluster'\<lparr>dc_Status := previous\<rparr>) = CNPGProvider_Status p cluster'"
proof
  show "CNPGProvider_Status p (cluster'\<lparr>dc_Status := previous\<rparr>) = CNPGProvider_Status p cluster'"
    by (rule CNPGProvider_Status_ignores_previous)
next
  show "\<exists>current calls status.
            (current = cluster
             \<or> current = cluster\<lparr>dc_Finalizers := dc_Finalizers cluster @ [''dbaas.io/finalizer'']\<rparr>) \<and>
            Status prov current = (calls, Inr status) \<and>
            last (fst (DatabaseClusterReconciler_Reconcile r))
              = StatusUpdate (current\<lparr>dc_Status := status\<rparr>) \<and>
            dc_Status (current\<lparr>dc_Status := status\<rparr>) = status \<and>
            cr_Status_Update r (current\<lparr>dc_Status := status\<rparr>) = None \<and>
            snd (DatabaseClusterReconciler_Reconcile r) = (\<lparr>RequeueAfter = 30 * Second\<rparr>, None)"
  proof (cases "containsString (dc_Finalizers cluster) ''dbaas.io/finalizer''")
    case True
    then have eq: "DatabaseClusterReconciler_Reconcile r =
                 (CallPreReconcileHook # map ChildCall hook_calls @ fst (buildAndApply r cluster prov),
                  snd (buildAndApply r cluster prov))"
      using get prov hook live
      by (simp add: DatabaseClusterReconciler_Reconcile_def split: prod.splits)
    with ok have "snd (snd (buildAndApply r cluster prov)) = None" by simp
    from buildAndApply_success [OF this] obtain pre calls status where
      s: "Status prov cluster = (calls, Inr status)" and
      l: "fst (buildAndApply r cluster prov) = pre @ [StatusUpdate (cluster\<lparr>dc_Status := status\<rparr>)]" and
      u: "cr_Status_Update r (cluster\<lparr>dc_Status := status\<rparr>) = None" and
      res: "snd (buildAndApply r cluster prov) = (\<lparr>RequeueAfter = 30 * Second\<rparr>, None)"
      by blast
    have "last (fst (DatabaseClusterReconciler_Reconcile r)) = StatusUpdate (cluster\<lparr>dc_Status := status\<rparr>)"
      unfolding eq using l by simp
    with s u res eq show ?thesis by auto
  next
    case False
    let ?guarded = "cluster\<lparr>dc_Finalizers := dc_Finalizers cluster @ [''dbaas.io/finalizer'']\<rparr>"
    have upd: "cr_Update r ?guarded = None"
    proof (rule ccontr)
      assume "cr_Update r ?guarded \<noteq> None"
      then obtain err where "cr_Update r ?guarded = Some err" by auto
      then have "snd (snd (DatabaseClusterReconciler_Reconcile r)) = Some err"
        using get prov hook live False
        by (simp add: DatabaseClusterReconciler_Reconcile_def Let_def)
      with ok show False by simp
    qed
    have eq: "DatabaseClusterReconciler_Reconcile r =
                 (CallPreReconcileHook # map ChildCall hook_calls
                    @ Update ?guarded # fst (buildAndApply r ?guarded prov),
                  snd (buildAndApply r ?guarded prov))"
      using get prov hook live False upd
      by (simp add: DatabaseClusterReconciler_Reconcile_def Let_def split: prod.splits)
    with ok have "snd (snd (buildAndApply r ?guarded prov)) = None" by simp
    from buildAndApply_success [OF this] obtain pre calls status where
      s: "Status prov ?guarded = (calls, Inr status)" and
      l: "fst (buildAndApply r ?guarded prov) = pre @ [StatusUpdate (?guarded\<lparr>dc_Status := status\<rparr>)]" and
      u: "cr_Status_Update r (?guarded\<lparr>dc_Status := status\<rparr>) = None" and
      res: "snd (buildAndApply r ?guarded prov) = (\<lparr>RequeueAfter = 30 * Second\<rparr>, None)"
      by blast
    have "last (fst (DatabaseClusterReconciler_Reconcile r)) = StatusUpdate (?guarded\<lparr>dc_Status := status\<rparr>)"
      unfolding eq using l by simp
    with s u res eq show ?thesis by auto
  qed
qed


theorem status_replaced_wholesale_witness:
  "cr_Get (sample_cluster_env sample_stale_cluster
             (sample_provider (sample_client (reads_succeed ''Setting up primary''))
                no_step_fails))
     = Inr sample_stale_cluster \<and>
   IsZero (dc_DeletionTimestamp sample_stale_cluster) \<and>
   cs_Phase (dc_Status sample_stale_cluster) = ''Ready'' \<and>
   cs_Backup (dc_Status sample_stale_cluster) \<noteq> None \<and>
   snd (DatabaseClusterReconciler_Reconcile
          (sample_cluster_env sample_stale_cluster
             (sample_provider (sample_client (reads_succeed ''Setting up primary''))
                no_step_fails)))
     = (\<lparr>RequeueAfter = 30 * Second\<rparr>, None) \<and>
   (\<exists>w. last (fst (DatabaseClusterReconciler_Reconcile
                     (sample_cluster_env sample_stale_cluster
                        (sample_provider (sample_client (reads_succeed ''Setting up primary''))
                           no_step_fails))))
          = StatusUpdate w \<and>
        cs_Phase (dc_Status w) = ''Initializing'' \<and>
        cs_Backup (dc_Status w) = None \<and>
        cs_Message (dc_Status w) = [] \<and>
        cs_ObservedGeneration (dc_Status w) = 2)"
proof -
  let ?c = "sample_client (reads_succeed ''Setting up primary'')"
  let ?prov = "sample_provider ?c no_step_fails"
  let ?env = "sample_cluster_env sample_stale_cluster ?prov"
  have g: "cr_Get ?env = Inr sample_stale_cluster" by (simp add: sample_cluster_env_def)
  have p: "cr_GetProvider ?env (EngineType (dc_Spec sample_stale_cluster)) = Inr ?prov"
    by (simp add: sample_cluster_env_def)
  have h: "PreReconcileHook ?prov sample_stale_cluster = ([], Inr 0)"
    by (simp add: sample_provider_def CNPGProvider_PreReconcileHook_def
          sample_stale_cluster_def sample_cluster_def)
  have z: "IsZero (dc_DeletionTimestamp sample_stale_cluster)"
    by (simp add: sample_stale_cluster_def sample_cluster_def IsZero_def)
  have old: "cs_Phase (dc_Status sample_stale_cluster) = ''Ready''
             \<and> cs_Backup (dc_Status sample_stale_cluster) \<noteq> None"
    by (simp add: sample_stale_cluster_def DatabaseClusterStatus_zero_def)
  have run: "DatabaseClusterReconciler_Reconcile ?env =
     ([CallPreReconcileHook,
       StepRun StepMetadata True, StepRun StepEngine True, StepRun StepProxy True,
       StepRun StepMonitoring True, StepRun StepPodSchedulingPolicy True,
       StepRun StepBackup True, StepRun StepDataSource True, StepRun StepDataImport True,
       CreateChild (sample_child []), CallStatus, ChildCall (ChildGet ''pg'' ''default''),
       StatusUpdate
         (sample_stale_cluster
            \<lparr>dc_Status :=
               map_database sample_stale_cluster (c_Status (sample_child ''Setting up primary''))
                 (DatabaseClusterStatus_zero
                    \<lparr>cs_ObservedGeneration := 2, cs_Phase := ''Initializing''\<rparr>)\<rparr>)],
      \<lparr>RequeueAfter = 30 * Second\<rparr>, None)"
    by (simp add: DatabaseClusterReconciler_Reconcile_def buildAndApply_def
          applyTransformations_def createOrUpdateChildCluster_def updateStatus_def GetResult_def
          sample_cluster_env_def sample_provider_def sample_applier_def sample_step_def
          no_step_fails_def CNPGProvider_PreReconcileHook_def CNPGProvider_Status_def
          map_phase_def mapCNPGPhaseToDBaaSPhase_def map_backup_def map_monitoring_def
          map_proxy_def set_message_def sample_client_def reads_succeed_def
          sample_stale_cluster_def sample_cluster_def sample_child_def IsZero_def
          ClusterPhase_defs Let_def)
  have ok: "snd (snd (DatabaseClusterReconciler_Reconcile ?env)) = None"
    unfolding run by simp
  have h0: "(0::int) \<le> 0" by simp
  from status_replaced_wholesale [OF g p h h0 z ok]
  have res: "snd (DatabaseClusterReconciler_Reconcile ?env) = (\<lparr>RequeueAfter = 30 * Second\<rparr>, None)"
    by blast
  have w: "\<exists>w. last (fst (DatabaseClusterReconciler_Reconcile ?env)) = StatusUpdate w \<and>
        cs_Phase (dc_Status w) = ''Initializing'' \<and>
        cs_Backup (dc_Status w) = None \<and>
        cs_Message (dc_Status w) = [] \<and>
        cs_ObservedGeneration (dc_Status w) = 2"
    unfolding run by (simp add: map_database_def DatabaseClusterStatus_zero_def)
  from g z old res w show ?thesis by blast
qed

end
